theory Spec2Isabelle
  imports Main "HOL-Library.Sublist"
begin

section \<open>Strings\<close>

text \<open>
  A JavaScript string is a sequence of UTF-16 code units. The model writes it as a
  \<open>string\<close>, one \<open>char\<close> per code unit, which covers the code units below 256;
  \<open>length\<close> is the \<open>.length\<close> of the source.
\<close>

text \<open>\<open>String.prototype.includes\<close>: some suffix of \<open>s\<close> starts with \<open>sub\<close>.\<close>

fun str_includes :: "string \<Rightarrow> string \<Rightarrow> bool" where
  "str_includes [] sub = (sub = [])"
| "str_includes (x # xs) sub = (prefix sub (x # xs) \<or> str_includes xs sub)"

definition startsWith :: "string \<Rightarrow> string \<Rightarrow> bool" where
  "startsWith s p = prefix p s"

definition endsWith :: "string \<Rightarrow> string \<Rightarrow> bool" where
  "endsWith s p = suffix p s"

text \<open>
  The white space of \<open>\s\<close> and of \<open>trim\<close> among the code units below 256: tab, line
  feed, vertical tab, form feed, carriage return, space and no-break space.
\<close>

definition spaceChars :: "char list" where
  "spaceChars = [CHR 0x09, CHR 0x0A, CHR 0x0B, CHR 0x0C, CHR 0x0D, CHR 0x20, CHR 0xA0]"

definition isSpace :: "char \<Rightarrow> bool" where
  "isSpace c = (c \<in> set spaceChars)"

definition trim :: "string \<Rightarrow> string" where
  "trim s = rev (dropWhile isSpace (rev (dropWhile isSpace s)))"

text \<open>
  Letter case. A character is its eight bits, lowest first; bit 5 (value 32) separates
  the two cases of a letter. \<open>asciiLetterBits\<close> holds for the low five bits 1 to 26,
  the letters A to Z and a to z.
\<close>

definition asciiLetterBits :: "bool \<Rightarrow> bool \<Rightarrow> bool \<Rightarrow> bool \<Rightarrow> bool \<Rightarrow> bool" where
  "asciiLetterBits b0 b1 b2 b3 b4 =
     ((b0 \<or> b1 \<or> b2 \<or> b3 \<or> b4) \<and> \<not> (b3 \<and> b4 \<and> (b2 \<or> (b0 \<and> b1))))"

fun lowerChar :: "char \<Rightarrow> char" where
  "lowerChar (Char b0 b1 b2 b3 b4 b5 b6 b7) =
     (if \<not> b7 \<and> b6 \<and> \<not> b5 \<and> asciiLetterBits b0 b1 b2 b3 b4
      then Char b0 b1 b2 b3 b4 True b6 b7
      else Char b0 b1 b2 b3 b4 b5 b6 b7)"

fun upperChar :: "char \<Rightarrow> char" where
  "upperChar (Char b0 b1 b2 b3 b4 b5 b6 b7) =
     (if \<not> b7 \<and> b6 \<and> b5 \<and> asciiLetterBits b0 b1 b2 b3 b4
      then Char b0 b1 b2 b3 b4 False b6 b7
      else Char b0 b1 b2 b3 b4 b5 b6 b7)"

text \<open>
  \<open>String.prototype.toLowerCase\<close> on the code units below 256: the ASCII capitals, and
  the capitals 0xC0 to 0xDE without the multiplication sign 0xD7 (0xDF, the sharp s,
  has no capital bit to clear either).
\<close>

fun jsLowerChar :: "char \<Rightarrow> char" where
  "jsLowerChar (Char b0 b1 b2 b3 b4 b5 b6 b7) =
     (if \<not> b7 \<and> b6 \<and> \<not> b5 \<and> asciiLetterBits b0 b1 b2 b3 b4
      then Char b0 b1 b2 b3 b4 True b6 b7
      else if b7 \<and> b6 \<and> \<not> b5 \<and> \<not> (b0 \<and> b1 \<and> b2 \<and> b4)
      then Char b0 b1 b2 b3 b4 True b6 b7
      else Char b0 b1 b2 b3 b4 b5 b6 b7)"

definition toLowerCase :: "string \<Rightarrow> string" where
  "toLowerCase s = map jsLowerChar s"

section \<open>Regular expressions\<close>

text \<open>
  The regular expressions of the source use character classes, literal text, greedy and
  lazy repetition of a single class, alternation and capture groups. \<open>cls\<close> is one
  character position, \<open>re\<close> a pattern.
\<close>

datatype cls =
    CLit char         \<comment> \<open>a literal character\<close>
  | CNot "char list"  \<comment> \<open>\<open>[^...]\<close>\<close>
  | COneOf "char list" \<comment> \<open>\<open>[...]\<close>\<close>
  | CSpace            \<comment> \<open>\<open>\s\<close>\<close>
  | CAny              \<comment> \<open>\<open>[\s\S]\<close>\<close>
  | CDot              \<comment> \<open>\<open>.\<close>: anything but a line terminator\<close>

fun cmatch :: "cls \<Rightarrow> char \<Rightarrow> bool" where
  "cmatch (CLit c) x = (x = c)"
| "cmatch (CNot cs) x = (x \<notin> set cs)"
| "cmatch (COneOf cs) x = (x \<in> set cs)"
| "cmatch CSpace x = isSpace x"
| "cmatch CAny x = True"
| "cmatch CDot x = (x \<notin> set [CHR 0x0A, CHR 0x0D])"

datatype re =
    Eps
  | Atom cls
  | Opt cls           \<comment> \<open>\<open>c?\<close>\<close>
  | Star cls          \<comment> \<open>\<open>c*\<close>, greedy\<close>
  | Plus cls          \<comment> \<open>\<open>c+\<close>, greedy\<close>
  | LazyStar cls      \<comment> \<open>\<open>c*?\<close>\<close>
  | Seq re re
  | Alt re re
  | Group re          \<comment> \<open>a capture group\<close>

text \<open>
  The backtracking matcher: every way the pattern matches a prefix of the input, as the
  inputs left over, in the order the engine tries them. A greedy star tries the longest
  run first, a lazy star the shortest.
\<close>

fun star_greedy :: "cls \<Rightarrow> string \<Rightarrow> string list" where
  "star_greedy c [] = [[]]"
| "star_greedy c (x # xs) = (if cmatch c x then star_greedy c xs else []) @ [x # xs]"

fun star_lazy :: "cls \<Rightarrow> string \<Rightarrow> string list" where
  "star_lazy c [] = [[]]"
| "star_lazy c (x # xs) = (x # xs) # (if cmatch c x then star_lazy c xs else [])"

type_synonym mstate = "string \<times> string list"

fun rmatch :: "re \<Rightarrow> mstate \<Rightarrow> mstate list" where
  "rmatch Eps st = [st]"
| "rmatch (Atom c) (s, caps) =
     (case s of [] \<Rightarrow> [] | x # xs \<Rightarrow> if cmatch c x then [(xs, caps)] else [])"
| "rmatch (Opt c) (s, caps) =
     (case s of [] \<Rightarrow> [] | x # xs \<Rightarrow> if cmatch c x then [(xs, caps)] else []) @ [(s, caps)]"
| "rmatch (Star c) (s, caps) = map (\<lambda>r. (r, caps)) (star_greedy c s)"
| "rmatch (Plus c) (s, caps) =
     (case s of [] \<Rightarrow> []
      | x # xs \<Rightarrow> if cmatch c x then map (\<lambda>r. (r, caps)) (star_greedy c xs) else [])"
| "rmatch (LazyStar c) (s, caps) = map (\<lambda>r. (r, caps)) (star_lazy c s)"
| "rmatch (Seq a b) st = concat (map (rmatch b) (rmatch a st))"
| "rmatch (Alt a b) st = rmatch a st @ rmatch b st"
| "rmatch (Group r) (s, caps) =
     map (\<lambda>(s', caps'). (s', caps' @ [take (length s - length s') s])) (rmatch r (s, caps))"

text \<open>
  A match at the start of \<open>s\<close>: the number of characters matched and the captures of
  the first way that succeeds.
\<close>

definition match_at :: "re \<Rightarrow> string \<Rightarrow> (nat \<times> string list) option" where
  "match_at r s =
     (case rmatch r (s, []) of
        [] \<Rightarrow> None
      | (rest, caps) # _ \<Rightarrow> Some (length s - length rest, caps))"

text \<open>\<open>String.prototype.match\<close> without the \<open>g\<close> flag: the leftmost match, its captures.\<close>

fun match_re :: "re \<Rightarrow> string \<Rightarrow> string list option" where
  "match_re r [] = map_option snd (match_at r [])"
| "match_re r (x # xs) =
     (case match_at r (x # xs) of
        Some m \<Rightarrow> Some (snd m)
      | None \<Rightarrow> match_re r xs)"

text \<open>\<open>RegExp.prototype.test\<close>.\<close>

definition test :: "re \<Rightarrow> string \<Rightarrow> bool" where
  "test r s = (match_re r s \<noteq> None)"

text \<open>
  \<open>String.prototype.replace\<close> with a \<open>g\<close> pattern and a fixed replacement. \<open>skip\<close>
  counts the characters of the last match still to pass over. After an empty match the
  engine copies one character and goes on.
\<close>

fun replace_go :: "re \<Rightarrow> string \<Rightarrow> nat \<Rightarrow> string \<Rightarrow> string" where
  "replace_go r rep (Suc k) (x # xs) = replace_go r rep k xs"
| "replace_go r rep (Suc k) [] = []"
| "replace_go r rep 0 [] = (case match_at r [] of Some m \<Rightarrow> rep | None \<Rightarrow> [])"
| "replace_go r rep 0 (x # xs) =
     (case match_at r (x # xs) of
        None \<Rightarrow> x # replace_go r rep 0 xs
      | Some m \<Rightarrow>
          (if fst m = 0 then rep @ x # replace_go r rep 0 xs
           else rep @ replace_go r rep (fst m - 1) xs))"

definition replaceAll :: "re \<Rightarrow> string \<Rightarrow> string \<Rightarrow> string" where
  "replaceAll r rep s = replace_go r rep 0 s"

text \<open>
  Pattern builders: a run of literal characters, without and with the \<open>i\<close> flag.
  Under the \<open>i\<close> flag a literal ASCII letter matches its two cases and nothing else,
  any other literal character matches itself.
\<close>

definition seqs :: "re list \<Rightarrow> re" where
  "seqs rs = foldr Seq rs Eps"

definition lit :: "string \<Rightarrow> re" where
  "lit s = seqs (map (\<lambda>c. Atom (CLit c)) s)"

definition liti :: "string \<Rightarrow> re" where
  "liti s = seqs (map (\<lambda>c. Atom (COneOf [lowerChar c, upperChar c])) s)"

section \<open>ContentClassifier: detectBrowserRequirement\<close>

definition simpleSites :: "string list" where
  "simpleSites =
     [''example.com'', ''httpbin.org'', ''wikipedia.org'', ''github.io'', ''netlify.app'',
      ''vercel.app'']"

definition quote_cls :: cls where
  "quote_cls = COneOf [CHR 0x27, CHR 0x22]"

text \<open>\<open>/<div[^>]*id=['"]?NAME['"]?[^>]*>\s*<\/div>/i\<close>\<close>

definition empty_div_re :: "string \<Rightarrow> re" where
  "empty_div_re name =
     seqs [liti ''<div'', Star (CNot ''>''), liti ''id='', Opt quote_cls, liti name,
           Opt quote_cls, Star (CNot ''>''), liti ''>'', Star CSpace, liti ''</div>'']"

definition spaIndicators :: "re list" where
  "spaIndicators =
     [empty_div_re ''root'',
      empty_div_re ''app'',
      seqs [liti ''<div'', Star (CNot ''>''), liti ''data-reactroot''],
      liti ''window.__NEXT_DATA__'',
      liti ''window.__NUXT__'',
      liti ''_next/static'',
      liti ''__webpack_require__'']"

text \<open>\<open>/A.*B/i\<close>\<close>

definition dot_star_re :: "string \<Rightarrow> string \<Rightarrow> re" where
  "dot_star_re a b = seqs [liti a, Star CDot, liti b]"

definition protectionIndicators :: "re list" where
  "protectionIndicators =
     [dot_star_re ''cloudflare'' ''challenge'',
      dot_star_re ''cloudflare'' ''protection'',
      dot_star_re ''ray id'' ''cloudflare'',
      liti ''please enable javascript'',
      liti ''you need to enable javascript'',
      liti ''this site requires javascript'',
      dot_star_re ''jscript'' ''required'',
      dot_star_re ''security check'' ''cloudflare'',
      dot_star_re ''attention required'' ''cloudflare'']"

definition domainIndicators :: "re list" where
  "domainIndicators =
     [liti ''instagram.com'', liti ''twitter.com'', liti ''facebook.com'',
      liti ''linkedin.com'', liti ''maps.google'', liti ''gmail.com'', liti ''youtube.com'']"

text \<open>\<open>/<body[^>]*>([\s\S]*)<\/body>/i\<close>\<close>

definition body_re :: re where
  "body_re = seqs [liti ''<body'', Star (CNot ''>''), liti ''>'', Group (Star CAny), liti ''</body>'']"

text \<open>\<open>/<script[\s\S]*?<\/script>/gi\<close> and \<open>/<style[\s\S]*?<\/style>/gi\<close>\<close>

definition block_re :: "string \<Rightarrow> re" where
  "block_re tag = seqs [liti (''<'' @ tag), LazyStar CAny, liti (''</'' @ tag @ ''>'')]"

text \<open>\<open>/<[^>]+>/g\<close> and \<open>/\s+/g\<close>\<close>

definition tag_re :: re where
  "tag_re = seqs [lit ''<'', Plus (CNot ''>''), lit ''>'']"

definition spaces_re :: re where
  "spaces_re = Plus CSpace"

text \<open>
  The chain of replacements both the classifier and the extractor apply to the body:
  script and style blocks removed, every tag and every run of white space replaced by
  one space, the ends trimmed.
\<close>

definition stripMarkup :: "string \<Rightarrow> string" where
  "stripMarkup body =
     trim (replaceAll spaces_re '' ''
       (replaceAll tag_re '' ''
         (replaceAll (block_re ''style'') ''''
           (replaceAll (block_re ''script'') '''' body))))"

text \<open>\<open>m?.[1] || ''\<close>: the first capture of a match, the empty string without one.\<close>

definition capture1 :: "string list option \<Rightarrow> string" where
  "capture1 m = (case m of Some (c # _) \<Rightarrow> c | _ \<Rightarrow> [])"

definition isSimpleSite :: "string \<Rightarrow> bool" where
  "isSimpleSite url = list_ex (\<lambda>site. str_includes url site) simpleSites"

definition hasSpaIndicators :: "string \<Rightarrow> bool" where
  "hasSpaIndicators html = list_ex (\<lambda>pattern. test pattern html) spaIndicators"

definition hasProtection :: "string \<Rightarrow> bool" where
  "hasProtection html = list_ex (\<lambda>pattern. test pattern html) protectionIndicators"

definition isKnownSpa :: "string \<Rightarrow> bool" where
  "isKnownSpa url = list_ex (\<lambda>pattern. test pattern url) domainIndicators"

definition visibleText :: "string \<Rightarrow> string" where
  "visibleText html = stripMarkup (capture1 (match_re body_re html))"

definition detectBrowserRequirement :: "string \<Rightarrow> string \<Rightarrow> bool" where
  "detectBrowserRequirement html url =
     (if isSimpleSite url then False
      else
        let hasMinimalContent = length (visibleText html) < 200;
            isLikelySpa = hasMinimalContent \<and> hasSpaIndicators html
        in hasProtection html \<or> isKnownSpa url \<or> isLikelySpa)"

section \<open>JSON values and JSON.stringify\<close>

text \<open>
  A JSON value. A number is held as the decimal text \<open>JSON.stringify\<close> prints for it.
  An object is the list of its properties in enumeration order.
\<close>

datatype json =
    JNull
  | JBool bool
  | JNum string
  | JStr string
  | JArr "json list"
  | JObj "(string \<times> json) list"

text \<open>
  \<open>JSON.parse\<close> belongs to the language, not to the repository: the functions that call
  it take it as the parameter \<open>parse\<close>, \<open>None\<close> where it throws a SyntaxError.
\<close>

type_synonym json_parse = "string \<Rightarrow> json option"

definition hexDigits :: string where
  "hexDigits = ''0123456789abcdef''"

text \<open>
  The quoting of a string: the quote and the backslash are escaped, a control character
  (below 0x20) has its short escape or \<open>\u00XX\<close>, every other character stands for
  itself.
\<close>

fun escapeChar :: "char \<Rightarrow> string" where
  "escapeChar (Char b0 b1 b2 b3 b4 b5 b6 b7) =
     (let c = Char b0 b1 b2 b3 b4 b5 b6 b7 in
      if c = CHR 0x22 then [CHR 0x5C, CHR 0x22]
      else if c = CHR 0x5C then [CHR 0x5C, CHR 0x5C]
      else if b5 \<or> b6 \<or> b7 then [c]
      else if c = CHR 0x08 then [CHR 0x5C, CHR ''b'']
      else if c = CHR 0x09 then [CHR 0x5C, CHR ''t'']
      else if c = CHR 0x0A then [CHR 0x5C, CHR ''n'']
      else if c = CHR 0x0C then [CHR 0x5C, CHR ''f'']
      else if c = CHR 0x0D then [CHR 0x5C, CHR ''r'']
      else [CHR 0x5C, CHR ''u'', CHR ''0'', CHR ''0'', if b4 then CHR ''1'' else CHR ''0'',
            hexDigits ! ((if b0 then 1 else 0) + (if b1 then 2 else 0) +
                         (if b2 then 4 else 0) + (if b3 then 8 else 0))])"

definition quoteJSON :: "string \<Rightarrow> string" where
  "quoteJSON s = [CHR 0x22] @ concat (map escapeChar s) @ [CHR 0x22]"

fun join :: "string \<Rightarrow> string list \<Rightarrow> string" where
  "join sep [] = []"
| "join sep [x] = x"
| "join sep (x # y # ys) = x @ sep @ join sep (y # ys)"

text \<open>\<open>JSON.stringify(value)\<close>: no gap.\<close>

fun stringify :: "json \<Rightarrow> string" where
  "stringify JNull = ''null''"
| "stringify (JBool b) = (if b then ''true'' else ''false'')"
| "stringify (JNum t) = t"
| "stringify (JStr s) = quoteJSON s"
| "stringify (JArr xs) = ''['' @ join '','' (map stringify xs) @ '']''"
| "stringify (JObj kvs) =
     ''{'' @ join '','' (map (\<lambda>kv. quoteJSON (fst kv) @ '':'' @ stringify (snd kv)) kvs) @ ''}''"

text \<open>
  \<open>JSON.stringify(value, null, 2)\<close>: a gap of two spaces. \<open>n\<close> is the indentation
  of the enclosing value. An empty array or object has no line break.
\<close>

definition newline :: string where
  "newline = [CHR 0x0A]"

fun stringify2 :: "nat \<Rightarrow> json \<Rightarrow> string" where
  "stringify2 n JNull = ''null''"
| "stringify2 n (JBool b) = (if b then ''true'' else ''false'')"
| "stringify2 n (JNum t) = t"
| "stringify2 n (JStr s) = quoteJSON s"
| "stringify2 n (JArr xs) =
     (if xs = [] then ''[]''
      else ''['' @ newline @ replicate (n + 2) CHR '' '' @
           join ('','' @ newline @ replicate (n + 2) CHR '' '') (map (stringify2 (n + 2)) xs) @
           newline @ replicate n CHR '' '' @ '']'')"
| "stringify2 n (JObj kvs) =
     (if kvs = [] then ''{}''
      else ''{'' @ newline @ replicate (n + 2) CHR '' '' @
           join ('','' @ newline @ replicate (n + 2) CHR '' '')
             (map (\<lambda>kv. quoteJSON (fst kv) @ '': '' @ stringify2 (n + 2) (snd kv)) kvs) @
           newline @ replicate n CHR '' '' @ ''}'')"

section \<open>ContentExtractor: extractContentFromHTML\<close>

text \<open>
  \<open>String.prototype.matchAll\<close> with a \<open>g\<close> pattern: the captures of every match, left
  to right; the search goes on where the last match ended, one character further after
  an empty match.
\<close>

fun matchAll_go :: "re \<Rightarrow> nat \<Rightarrow> string \<Rightarrow> string list list" where
  "matchAll_go r (Suc k) (x # xs) = matchAll_go r k xs"
| "matchAll_go r (Suc k) [] = []"
| "matchAll_go r 0 [] = (case match_at r [] of Some m \<Rightarrow> [snd m] | None \<Rightarrow> [])"
| "matchAll_go r 0 (x # xs) =
     (case match_at r (x # xs) of
        None \<Rightarrow> matchAll_go r 0 xs
      | Some m \<Rightarrow> snd m # matchAll_go r (fst m - 1) xs)"

definition matchAll :: "re \<Rightarrow> string \<Rightarrow> string list list" where
  "matchAll r s = matchAll_go r 0 s"

text \<open>\<open>/<title[^>]*>([^<]+)<\/title>/i\<close>\<close>

definition title_re :: re where
  "title_re =
     seqs [liti ''<title'', Star (CNot ''>''), liti ''>'', Group (Plus (CNot ''<'')),
           liti ''</title>'']"

text \<open>\<open>/<meta[^>]*name=['"]description['"][^>]*content=['"]([^'"]*)['"]/i\<close>\<close>

definition metaDescription_re :: re where
  "metaDescription_re =
     seqs [liti ''<meta'', Star (CNot ''>''), liti ''name='', Atom quote_cls,
           liti ''description'', Atom quote_cls, Star (CNot ''>''), liti ''content='',
           Atom quote_cls, Group (Star (CNot [CHR 0x27, CHR 0x22])), Atom quote_cls]"

text \<open>\<open>/<script[^>]*type=['"]application\/ld\+json['"][^>]*>([\s\S]*?)<\/script>/gi\<close>\<close>

definition jsonLd_re :: re where
  "jsonLd_re =
     seqs [liti ''<script'', Star (CNot ''>''), liti ''type='', Atom quote_cls,
           liti ''application/ld+json'', Atom quote_cls, Star (CNot ''>''), liti ''>'',
           Group (LazyStar CAny), liti ''</script>'']"

text \<open>
  \<open>/window\.__(?:INITIAL_STATE__|INITIAL_DATA__|NEXT_DATA__)__\s*=\s*({[\s\S]*?});/\<close>,
  without the \<open>i\<close> flag. After the alternation, whose three names each end in two
  underscores, the pattern asks for two more underscores.
\<close>

definition windowData_re :: re where
  "windowData_re =
     seqs [lit ''window.__'',
           Alt (lit ''INITIAL_STATE__'') (Alt (lit ''INITIAL_DATA__'') (lit ''NEXT_DATA__'')),
           lit ''__'', Star CSpace, lit ''='', Star CSpace,
           Group (seqs [lit ''{'', LazyStar CAny, lit ''}'']), lit '';'']"

text \<open>
  \<open>/<meta[^>]*(?:property|name)=['"]([^'"]+)['"][^>]*content=['"]([^'"]*)['"]/gi\<close>
\<close>

definition metaTag_re :: re where
  "metaTag_re =
     seqs [liti ''<meta'', Star (CNot ''>''), Alt (liti ''property'') (liti ''name''),
           liti ''='', Atom quote_cls, Group (Plus (CNot [CHR 0x27, CHR 0x22])),
           Atom quote_cls, Star (CNot ''>''), liti ''content='', Atom quote_cls,
           Group (Star (CNot [CHR 0x27, CHR 0x22])), Atom quote_cls]"

text \<open>
  Property assignment \<open>obj[k] = v\<close> on a plain object, for a string \<open>v\<close>. An object
  lists its array-index keys (the canonical decimal numerals up to 4294967294) first, in
  ascending order, then its other keys in the order they were created. An existing key keeps
  its place. Assigning a string to \<open>__proto__\<close> changes nothing.
\<close>

definition digitChars :: string where
  "digitChars = ''0123456789''"

fun digitVal :: "char \<Rightarrow> nat" where
  "digitVal c = length (takeWhile (\<lambda>d. d \<noteq> c) digitChars)"

definition decimalVal :: "string \<Rightarrow> nat" where
  "decimalVal s = foldl (\<lambda>acc c. 10 * acc + digitVal c) 0 s"

definition isArrayIndex :: "string \<Rightarrow> bool" where
  "isArrayIndex k =
     (k \<noteq> [] \<and> list_all (\<lambda>c. c \<in> set digitChars) k \<and> (hd k \<noteq> CHR ''0'' \<or> length k = 1)
      \<and> length k \<le> 10 \<and> decimalVal k \<le> 4294967294)"

fun insertKey :: "string \<Rightarrow> json \<Rightarrow> (string \<times> json) list \<Rightarrow> (string \<times> json) list" where
  "insertKey k v [] = [(k, v)]"
| "insertKey k v ((k', v') # rest) =
     (if isArrayIndex k \<and> (\<not> isArrayIndex k' \<or> decimalVal k < decimalVal k')
      then (k, v) # (k', v') # rest
      else (k', v') # insertKey k v rest)"

definition setProperty :: "string \<Rightarrow> json \<Rightarrow> (string \<times> json) list \<Rightarrow> (string \<times> json) list" where
  "setProperty k v obj =
     (if k = ''__proto__'' then obj
      else if k \<in> set (map fst obj) then map (\<lambda>kv. if fst kv = k then (k, v) else kv) obj
      else insertKey k v obj)"

text \<open>
  The extraction. \<open>now\<close> is the text of \<open>new Date().toISOString()\<close> at the call. The
  source wraps the body in a \<open>try\<close> whose handler returns a diagnostic record; on a
  string nothing in the body throws (the \<open>JSON.parse\<close> calls have handlers of their own),
  so the record below is the only result.
\<close>

definition structuredDataOf :: "json_parse \<Rightarrow> string \<Rightarrow> json list" where
  "structuredDataOf parse html =
     concat (map (\<lambda>m. case parse (capture1 (Some m)) of Some d \<Rightarrow> [d] | None \<Rightarrow> [])
                 (matchAll jsonLd_re html))"

definition windowDataOf :: "json_parse \<Rightarrow> string \<Rightarrow> json" where
  "windowDataOf parse html =
     (case match_re windowData_re html of
        None \<Rightarrow> JNull
      | Some m \<Rightarrow>
          (case parse (capture1 (Some m)) of
             Some d \<Rightarrow> d
           | None \<Rightarrow> JStr ''Found but unparseable''))"

definition textContentOf :: "string \<Rightarrow> string" where
  "textContentOf html =
     (case match_re body_re html of
        None \<Rightarrow> []
      | Some m \<Rightarrow> take 2000 (stripMarkup (capture1 (Some m))))"

definition metaTagsOf :: "string \<Rightarrow> (string \<times> json) list" where
  "metaTagsOf html =
     foldl (\<lambda>metaTags m. case m of k # v # _ \<Rightarrow> setProperty k (JStr v) metaTags
                                  | _ \<Rightarrow> metaTags) []
           (take 15 (matchAll metaTag_re html))"

definition contentRecord :: "json_parse \<Rightarrow> string \<Rightarrow> string \<Rightarrow> json" where
  "contentRecord parse now html =
     (let title = capture1 (match_re title_re html);
          metaDescription = capture1 (match_re metaDescription_re html);
          structuredData = structuredDataOf parse html;
          windowData = windowDataOf parse html;
          textContent = textContentOf html;
          metaTags = metaTagsOf html
      in JObj
           [(''title'', JStr title),
            (''metaDescription'', JStr metaDescription),
            (''structuredData'', if length structuredData > 0 then JArr structuredData else JNull),
            (''windowData'', windowData),
            (''metaTags'', if length metaTags > 0 then JObj metaTags else JNull),
            (''content'', JStr textContent),
            (''extractedAt'', JStr now)])"

definition extractContentFromHTML :: "json_parse \<Rightarrow> string \<Rightarrow> string \<Rightarrow> string" where
  "extractContentFromHTML parse now html = stringify2 0 (contentRecord parse now html)"

section \<open>StatsTracker: counters and getStats\<close>

record counters =
  attempts :: nat
  successes :: nat

record stats =
  directFetch :: counters
  lightpanda :: counters
  puppeteer :: counters
  pdf :: counters

definition initialStats :: stats where
  "initialStats =
     \<lparr>directFetch = \<lparr>attempts = 0, successes = 0\<rparr>,
      lightpanda = \<lparr>attempts = 0, successes = 0\<rparr>,
      puppeteer = \<lparr>attempts = 0, successes = 0\<rparr>,
      pdf = \<lparr>attempts = 0, successes = 0\<rparr>\<rparr>"

text \<open>
  The counters are JavaScript numbers that start at 0 and only ever grow by \<open>++\<close>: they
  are natural numbers, exact as doubles below \<open>2^53\<close>. The rate
  \<open>(successes / attempts * 100).toFixed(1)\<close> is computed in binary64 arithmetic, which
  the model writes out on exact values: a finite double is \<open>m * 2^e\<close> for a significand
  \<open>m < 2^53\<close>, and every operation rounds its exact result to the nearest such value,
  ties to the even significand.
\<close>

text \<open>The number of binary digits of \<open>n\<close>.\<close>

fun bitLength :: "nat \<Rightarrow> nat" where
  "bitLength n = (if n = 0 then 0 else Suc (bitLength (n div 2)))"

text \<open>
  \<open>roundQuotient n d\<close>: the double nearest to the exact quotient \<open>n / d\<close> of two
  positive integers, as its significand and exponent. \<open>e\<close> is the exponent of the
  leading bit of the quotient, \<open>x = e - 52\<close> the exponent of the last place kept.
\<close>

definition roundQuotient :: "nat \<Rightarrow> nat \<Rightarrow> nat \<times> int" where
  "roundQuotient n d =
     (let k = int (bitLength n) - int (bitLength d);
          e = (if (if k \<ge> 0 then d * 2 ^ nat k \<le> n else d \<le> n * 2 ^ nat (- k)) then k else k - 1);
          x = e - 52;
          num = (if x < 0 then n * 2 ^ nat (- x) else n);
          den = (if x < 0 then d else d * 2 ^ nat x);
          f = num div den;
          r = num mod den
      in (if 2 * r < den \<or> (2 * r = den \<and> even f) then f else f + 1, x))"

text \<open>\<open>a / b\<close> on two counters, \<open>b > 0\<close>.\<close>

definition jsDivide :: "nat \<Rightarrow> nat \<Rightarrow> nat \<times> int" where
  "jsDivide a b = (if a = 0 then (0, 0) else roundQuotient a b)"

text \<open>\<open>x * c\<close> for a double \<open>x = m * 2^e\<close> and a positive integer \<open>c\<close>.\<close>

definition jsTimes :: "nat \<times> int \<Rightarrow> nat \<Rightarrow> nat \<times> int" where
  "jsTimes x c =
     (case x of (m, e) \<Rightarrow>
        if m = 0 then (0, 0)
        else if e \<ge> 0 then roundQuotient (m * c * 2 ^ nat e) 1
        else roundQuotient (m * c) (2 ^ nat (- e)))"

text \<open>Decimal digits of a natural number.\<close>

fun showNat :: "nat \<Rightarrow> string" where
  "showNat n = (if n < 10 then [digitChars ! n] else showNat (n div 10) @ [digitChars ! (n mod 10)])"

definition showInt :: "int \<Rightarrow> string" where
  "showInt i = (if i < 0 then ''-'' @ showNat (nat (- i)) else showNat (nat i))"

text \<open>
  \<open>x.toFixed(1)\<close> for a double \<open>x = m * 2^e\<close> below \<open>10^21\<close>: the integer \<open>n\<close> with
  \<open>n / 10\<close> nearest to the exact value of \<open>x\<close>, the larger one of two, printed with
  one digit after the point.
\<close>

definition toFixed1 :: "nat \<times> int \<Rightarrow> string" where
  "toFixed1 x =
     (case x of (m, e) \<Rightarrow>
        let n = (if e \<ge> 0 then 10 * m * 2 ^ nat e
                 else (2 * 10 * m + 2 ^ nat (- e)) div (2 * 2 ^ nat (- e)))
        in showNat (n div 10) @ ''.'' @ showNat (n mod 10))"

definition successRate :: "counters \<Rightarrow> string" where
  "successRate c =
     (if attempts c > 0 then toFixed1 (jsTimes (jsDivide (successes c) (attempts c)) 100) @ ''%''
      else ''0%'')"

record successRates =
  directFetchRate :: string
  lightpandaRate :: string
  puppeteerRate :: string
  pdfRate :: string

record statsReport = stats +
  successRates :: successRates

definition getStats :: "stats \<Rightarrow> statsReport" where
  "getStats st =
     stats.extend st
       (statsReport.fields
          \<lparr>directFetchRate = successRate (directFetch st),
           lightpandaRate = successRate (lightpanda st),
           puppeteerRate = successRate (puppeteer st),
           pdfRate = successRate (pdf st)\<rparr>)"

section \<open>RetrievalOrchestrator: the stages\<close>

text \<open>
  The four counted stages, and the effects of a stage in the order they happen: the
  increment of an attempt counter, the stage's first call to the outside (the HTTP request,
  the check of the binary, the browser), the increment of a success counter.
\<close>

datatype stage = DirectFetch | Lightpanda | Puppeteer | Pdf

datatype event = AttemptInc stage | Exec stage | SuccessInc stage

text \<open>
  The scraper instance: its counters, whether the shared browser has been launched,
  \<open>options.lightpandaPath\<close>, and the effects performed so far.
\<close>

record scraper =
  stats :: stats
  browser :: bool
  lightpandaPath :: "string option"
  trace :: "event list"

fun bumpAttempts :: "stage \<Rightarrow> stats \<Rightarrow> stats" where
  "bumpAttempts DirectFetch st = st\<lparr>directFetch := (directFetch st)\<lparr>attempts := attempts (directFetch st) + 1\<rparr>\<rparr>"
| "bumpAttempts Lightpanda st = st\<lparr>lightpanda := (lightpanda st)\<lparr>attempts := attempts (lightpanda st) + 1\<rparr>\<rparr>"
| "bumpAttempts Puppeteer st = st\<lparr>puppeteer := (puppeteer st)\<lparr>attempts := attempts (puppeteer st) + 1\<rparr>\<rparr>"
| "bumpAttempts Pdf st = st\<lparr>pdf := (pdf st)\<lparr>attempts := attempts (pdf st) + 1\<rparr>\<rparr>"

fun bumpSuccesses :: "stage \<Rightarrow> stats \<Rightarrow> stats" where
  "bumpSuccesses DirectFetch st = st\<lparr>directFetch := (directFetch st)\<lparr>successes := successes (directFetch st) + 1\<rparr>\<rparr>"
| "bumpSuccesses Lightpanda st = st\<lparr>lightpanda := (lightpanda st)\<lparr>successes := successes (lightpanda st) + 1\<rparr>\<rparr>"
| "bumpSuccesses Puppeteer st = st\<lparr>puppeteer := (puppeteer st)\<lparr>successes := successes (puppeteer st) + 1\<rparr>\<rparr>"
| "bumpSuccesses Pdf st = st\<lparr>pdf := (pdf st)\<lparr>successes := successes (pdf st) + 1\<rparr>\<rparr>"

text \<open>\<open>this.stats.M.attempts++\<close>, \<open>this.stats.M.successes++\<close>, and the outside call.\<close>

definition incAttempts :: "stage \<Rightarrow> scraper \<Rightarrow> scraper" where
  "incAttempts m s = s\<lparr>stats := bumpAttempts m (stats s), trace := trace s @ [AttemptInc m]\<rparr>"

definition incSuccesses :: "stage \<Rightarrow> scraper \<Rightarrow> scraper" where
  "incSuccesses m s = s\<lparr>stats := bumpSuccesses m (stats s), trace := trace s @ [SuccessInc m]\<rparr>"

definition exec :: "stage \<Rightarrow> scraper \<Rightarrow> scraper" where
  "exec m s = s\<lparr>trace := trace s @ [Exec m]\<rparr>"

text \<open>
  What a stage returns: an object with \<open>success\<close> and the optional fields the four
  stages set (\<open>None\<close>: the field is absent). \<open>exitCode\<close> may be present and null.
  The field \<open>size\<close> of the source is \<open>size_r\<close> here.
\<close>

record stageResult =
  success :: bool
  error :: "string option"
  content :: "string option"
  html :: "string option"
  size_r :: "nat option"
  needsBrowser :: "bool option"
  isPdf :: "bool option"
  contentType :: "string option"
  browserIndicators :: "string list option"
  exitCode :: "int option option"
  pages :: "nat option"

definition failure :: "string \<Rightarrow> stageResult" where
  "failure msg =
     \<lparr>success = False, error = Some msg, content = None, html = None, size_r = None,
      needsBrowser = None, isPdf = None, contentType = None, browserIndicators = None,
      exitCode = None, pages = None\<rparr>"

definition succeeded :: stageResult where
  "succeeded =
     \<lparr>success = True, error = None, content = None, html = None, size_r = None,
      needsBrowser = None, isPdf = None, contentType = None, browserIndicators = None,
      exitCode = None, pages = None\<rparr>"

text \<open>
  The outside world of one invocation. An operation that can throw or reject yields
  \<open>Inl\<close> the message of the error, \<open>Inr\<close> its value otherwise. The request options
  (time limit, user agent) only reach the outside calls, whose outcomes are given here, so
  the model leaves them out.
\<close>

record httpResponse =
  ok :: bool
  status :: nat
  statusText :: string
  contentTypeHeader :: "string option"  \<comment> \<open>\<open>headers.get('content-type')\<close>\<close>
  arrayBuffer :: "string + string"      \<comment> \<open>the bytes of the body\<close>

type_synonym fetchOutcome = "string + httpResponse"

text \<open>\<open>x || d\<close> on an optional string: absent and empty are both falsy.\<close>

definition orElse :: "string option \<Rightarrow> string \<Rightarrow> string" where
  "orElse x d = (case x of None \<Rightarrow> d | Some v \<Rightarrow> if v = [] then d else v)"

subsection \<open>getBrowserIndicators\<close>

definition getBrowserIndicators :: "string \<Rightarrow> string list" where
  "getBrowserIndicators h =
     (if test (empty_div_re ''root'') h then [''React root div detected''] else []) @
     (if test (liti ''window.__NEXT_DATA__'') h then [''Next.js data detected''] else []) @
     (if test (dot_star_re ''cloudflare'' ''challenge'') h then [''Cloudflare challenge detected''] else []) @
     (if test (dot_star_re ''cloudflare'' ''protection'') h then [''Cloudflare protection detected''] else []) @
     (if test (liti ''please enable javascript'') h then [''JavaScript required message detected''] else [])"

subsection \<open>tryDirectFetch\<close>

text \<open>
  \<open>decode\<close> is \<open>new TextDecoder().decode\<close>. Every failure inside the \<open>try\<close> becomes
  a result; the stage never throws.
\<close>

definition tryDirectFetch ::
  "json_parse \<Rightarrow> string \<Rightarrow> (string \<Rightarrow> string) \<Rightarrow> fetchOutcome \<Rightarrow> string \<Rightarrow> scraper
     \<Rightarrow> stageResult \<times> scraper" where
  "tryDirectFetch parse now decode fetched url s0 =
     (let s1 = exec DirectFetch (incAttempts DirectFetch s0) in
      case fetched of
        Inl msg \<Rightarrow> (failure msg, s1)
      | Inr response \<Rightarrow>
          if \<not> ok response
          then (failure (''HTTP '' @ showNat (status response) @ '': '' @ statusText response), s1)
          else if str_includes (orElse (contentTypeHeader response) []) ''application/pdf''
          then ((failure ''Content is PDF, should use PDF parser'')\<lparr>isPdf := Some True\<rparr>, s1)
          else
            (case arrayBuffer response of
               Inl msg \<Rightarrow> (failure msg, s1)
             | Inr buffer \<Rightarrow>
                 if startsWith (take 5 buffer) ''%PDF''
                 then ((failure ''Content is PDF (detected by magic bytes), should use PDF parser'')
                         \<lparr>isPdf := Some True\<rparr>, s1)
                 else
                   let h = decode buffer in
                   if \<not> detectBrowserRequirement h url
                   then
                     (succeeded\<lparr>needsBrowser := Some False,
                                content := Some (extractContentFromHTML parse now h),
                                html := Some h, size_r := Some (length h),
                                contentType := Some (orElse (contentTypeHeader response) ''text/html'')\<rparr>,
                      incSuccesses DirectFetch s1)
                   else
                     (succeeded\<lparr>needsBrowser := Some True, html := Some h, size_r := Some (length h),
                                browserIndicators := Some (getBrowserIndicators h)\<rparr>,
                      s1)))"

subsection \<open>tryLightpanda\<close>

text \<open>
  The check of the binary (\<open>statSync\<close> throws, or tells whether the path is a file), then
  the process: \<open>spawn\<close> throws, or the process reports an error, or it closes with an exit
  code (null when a signal ended it), its output and its error output. A throw of
  \<open>spawn\<close> rejects the promise the stage returns.
\<close>

datatype lpProcess =
    SpawnThrows string
  | ProcessError string
  | Closed "int option" string string

record lpWorld =
  statSync :: "string + bool"
  process :: lpProcess

definition showCode :: "int option \<Rightarrow> string" where
  "showCode code = (case code of None \<Rightarrow> ''null'' | Some c \<Rightarrow> showInt c)"

definition tryLightpanda ::
  "json_parse \<Rightarrow> string \<Rightarrow> lpWorld \<Rightarrow> string \<Rightarrow> scraper \<Rightarrow> (string + stageResult) \<times> scraper" where
  "tryLightpanda parse now w url s0 =
     (let s1 = incAttempts Lightpanda s0 in
      if orElse (lightpandaPath s1) [] = []
      then (Inr (failure ''Lightpanda binary not found. Please install Lightpanda or provide path.''), s1)
      else
        let s2 = exec Lightpanda s1 in
        case statSync w of
          Inl msg \<Rightarrow> (Inr (failure ''Lightpanda binary not accessible''), s2)
        | Inr isFile \<Rightarrow>
            if \<not> isFile then (Inr (failure ''Lightpanda binary is not a file''), s2)
            else
              (case process w of
                 SpawnThrows msg \<Rightarrow> (Inl msg, s2)
               | ProcessError msg \<Rightarrow> (Inr (failure (''Lightpanda process error: '' @ msg)), s2)
               | Closed code output errorOutput \<Rightarrow>
                   if code = Some 0 \<and> length output > 0
                   then
                     (Inr (succeeded\<lparr>content := Some (extractContentFromHTML parse now output),
                                      html := Some output, size_r := Some (length output),
                                      exitCode := Some code\<rparr>),
                      incSuccesses Lightpanda s2)
                   else
                     (Inr ((failure (orElse (Some errorOutput)
                                       (''Lightpanda exited with code '' @ showCode code)))
                             \<lparr>exitCode := Some code\<rparr>),
                      s2)))"


subsection \<open>tryPuppeteer\<close>

text \<open>
  What the in-page extraction returns, in the order of its keys. A heading is its level
  and text, a link its text and address.
\<close>

record pageContent =
  pc_title :: string
  pc_metaDescription :: string
  pc_canonical :: string
  pc_headings :: "(string \<times> string) list"
  pc_paragraphs :: "string list"
  pc_links :: "(string \<times> string) list"
  pc_structuredData :: "json list"
  pc_bodyText :: string
  pc_url :: string

definition pageContentJSON :: "pageContent \<Rightarrow> json" where
  "pageContentJSON c =
     JObj
       [(''title'', JStr (pc_title c)),
        (''metaDescription'', JStr (pc_metaDescription c)),
        (''canonical'', JStr (pc_canonical c)),
        (''headings'', JArr (map (\<lambda>h. JObj [(''level'', JStr (fst h)), (''text'', JStr (snd h))])
                                (pc_headings c))),
        (''paragraphs'', JArr (map JStr (pc_paragraphs c))),
        (''links'', JArr (map (\<lambda>l. JObj [(''text'', JStr (fst l)), (''href'', JStr (snd l))])
                             (pc_links c))),
        (''structuredData'', JArr (pc_structuredData c)),
        (''bodyText'', JStr (pc_bodyText c)),
        (''url'', JStr (pc_url c))]"

text \<open>
  \<open>available\<close>: the optional module was imported. \<open>launch\<close> is the outcome of
  \<open>puppeteer.launch\<close>, asked for only when the instance has no browser yet; \<open>page\<close>
  the outcome of everything from \<open>newPage\<close> to \<open>page.close\<close>. With the module
  missing the stage throws, outside its \<open>try\<close>.
\<close>

record ppWorld =
  available :: bool
  launch :: "string + unit"
  page :: "string + pageContent"

definition tryPuppeteer :: "ppWorld \<Rightarrow> string \<Rightarrow> scraper \<Rightarrow> (string + stageResult) \<times> scraper" where
  "tryPuppeteer w url s0 =
     (let s1 = incAttempts Puppeteer s0 in
      if \<not> available w then (Inl ''Puppeteer is not available'', s1)
      else
        let s2 = exec Puppeteer s1 in
        case (if browser s2 then Inr () else launch w) of
          Inl msg \<Rightarrow> (Inr (failure msg), s2)
        | Inr _ \<Rightarrow>
            let s3 = s2\<lparr>browser := True\<rparr> in
            (case page w of
               Inl msg \<Rightarrow> (Inr (failure msg), s3)
             | Inr c \<Rightarrow>
                 (Inr (succeeded\<lparr>content := Some (stringify2 0 (pageContentJSON c)),
                                  size_r := Some (length (stringify (pageContentJSON c)))\<rparr>),
                  incSuccesses Puppeteer s3)))"

subsection \<open>tryPDFParse\<close>

text \<open>
  The download and \<open>pdfParse\<close>, the library that reads the document. \<open>info\<close> may be
  absent, as may each of its entries and the metadata.
\<close>

record pdfInfo =
  Title :: "string option"
  Author :: "string option"
  Subject :: "string option"
  Keywords :: "string option"
  Creator :: "string option"
  Producer :: "string option"
  CreationDate :: "string option"
  ModificationDate :: "string option"

record pdfData =
  info :: "pdfInfo option"
  numpages :: nat
  text_of :: string
  metadata :: "json option"

record pdfWorld =
  pdfFetch :: fetchOutcome
  pdfParse :: "string + pdfData"

definition infoEntry :: "pdfData \<Rightarrow> (pdfInfo \<Rightarrow> string option) \<Rightarrow> string \<Rightarrow> string" where
  "infoEntry d entry dflt = orElse (case info d of None \<Rightarrow> None | Some i \<Rightarrow> entry i) dflt"

definition pdfContentJSON :: "pdfData \<Rightarrow> string \<Rightarrow> json" where
  "pdfContentJSON d url =
     JObj
       [(''title'', JStr (infoEntry d Title ''Untitled PDF'')),
        (''author'', JStr (infoEntry d Author [])),
        (''subject'', JStr (infoEntry d Subject [])),
        (''keywords'', JStr (infoEntry d Keywords [])),
        (''creator'', JStr (infoEntry d Creator [])),
        (''producer'', JStr (infoEntry d Producer [])),
        (''creationDate'', JStr (infoEntry d CreationDate [])),
        (''modificationDate'', JStr (infoEntry d ModificationDate [])),
        (''pages'', JNum (showNat (numpages d))),
        (''text'', JStr (text_of d)),
        (''metadata'', case metadata d of None \<Rightarrow> JNull | Some m \<Rightarrow> m),
        (''url'', JStr url)]"

definition acceptableTypes :: "string list" where
  "acceptableTypes = [''pdf'', ''octet-stream'', ''binary'', ''download'']"

definition tryPDFParse :: "pdfWorld \<Rightarrow> string \<Rightarrow> scraper \<Rightarrow> stageResult \<times> scraper" where
  "tryPDFParse w url s0 =
     (let s1 = exec Pdf (incAttempts Pdf s0) in
      case pdfFetch w of
        Inl msg \<Rightarrow> (failure (''PDF parsing error: '' @ msg), s1)
      | Inr response \<Rightarrow>
          if \<not> ok response
          then (failure (''HTTP '' @ showNat (status response) @ '': '' @ statusText response), s1)
          else
            let contentType = orElse (contentTypeHeader response) [];
                isAcceptableType = list_ex (\<lambda>type. str_includes contentType type) acceptableTypes
            in
            if \<not> isAcceptableType \<and> \<not> str_includes (toLowerCase url) ''.pdf''
            then (failure (''Not a PDF document: '' @ contentType), s1)
            else
              (case arrayBuffer response of
                 Inl msg \<Rightarrow> (failure (''PDF parsing error: '' @ msg), s1)
               | Inr buffer \<Rightarrow>
                   if length buffer > 20 * 1024 * 1024
                   then (failure ''PDF too large (max 20MB)'', s1)
                   else
                     (case pdfParse w of
                        Inl msg \<Rightarrow> (failure (''PDF parsing error: '' @ msg), s1)
                      | Inr d \<Rightarrow>
                          (succeeded\<lparr>content := Some (stringify2 0 (pdfContentJSON d url)),
                                     size_r := Some (length buffer),
                                     contentType := Some ''application/pdf'',
                                     pages := Some (numpages d)\<rparr>,
                           incSuccesses Pdf s1))))"

section \<open>RetrievalOrchestrator: scrape\<close>

text \<open>
  The result of \<open>scrape\<close>: the fields of the last stage's result, \<open>method\<close> and the
  report of \<open>getStats\<close>. The result of the \<open>catch\<close> handler has no report. The times
  under \<open>performance\<close> are left out, and so are the log messages, which change nothing.
\<close>

record scrapeResult = stageResult +
  method_r :: string
  stats_r :: "statsReport option"

text \<open>
  The outcomes of the outside calls of one invocation, one for each place that makes one:
  the PDF parser called for a PDF address, the direct fetch, the PDF parser called after
  the direct fetch found a PDF, the light engine, the full engine; and \<open>JSON.parse\<close>, the
  clock, the text decoder.
\<close>

record world =
  urlPdf :: pdfWorld
  directFetched :: fetchOutcome
  sniffedPdf :: pdfWorld
  lightEngine :: lpWorld
  fullEngine :: ppWorld
  jsonParse :: json_parse
  clock :: string
  textDecode :: "string \<Rightarrow> string"

definition isPdfUrl :: "string \<Rightarrow> bool" where
  "isPdfUrl url =
     (endsWith (toLowerCase url) ''.pdf'' \<or> str_includes (toLowerCase url) ''.pdf?''
      \<or> str_includes (toLowerCase url) ''/pdf/'')"

text \<open>\<open>{ ...result, method, performance, stats: this.getStats() }\<close>\<close>

definition finish :: "stageResult \<Rightarrow> string \<Rightarrow> scraper \<Rightarrow> scrapeResult" where
  "finish result m s =
     stageResult.extend result (scrapeResult.fields m (Some (getStats (stats s))))"

text \<open>
  The cascade after the PDF gate, from the direct fetch on. \<open>Inl\<close> is an exception on
  its way to the handler of \<open>scrape\<close>.
\<close>

definition cascade :: "world \<Rightarrow> string \<Rightarrow> scraper \<Rightarrow> (string + scrapeResult) \<times> scraper" where
  "cascade w url s0 =
     (case tryDirectFetch (jsonParse w) (clock w) (textDecode w) (directFetched w) url s0 of
        (result, s1) \<Rightarrow>
          if success result \<and> needsBrowser result \<noteq> Some True
          then (Inr (finish result ''direct-fetch'' s1), s1)
          else if isPdf result = Some True
          then
            (case tryPDFParse (sniffedPdf w) url s1 of
               (result, s2) \<Rightarrow>
                 if success result then (Inr (finish result ''pdf'' s2), s2)
                 else (Inr (finish result ''unknown'' s2), s2))
          else
            (case tryLightpanda (jsonParse w) (clock w) (lightEngine w) url s1 of
               (Inl exn, s2) \<Rightarrow> (Inl exn, s2)
             | (Inr result, s2) \<Rightarrow>
                 if success result then (Inr (finish result ''lightpanda'' s2), s2)
                 else
                   (case tryPuppeteer (fullEngine w) url s2 of
                      (Inl exn, s3) \<Rightarrow> (Inl exn, s3)
                    | (Inr result, s3) \<Rightarrow>
                        if success result then (Inr (finish result ''puppeteer'' s3), s3)
                        else (Inr (finish result ''failed'' s3), s3))))"

text \<open>The body of the \<open>try\<close>: the PDF gate, then the cascade.\<close>

definition scrapeBody :: "world \<Rightarrow> string \<Rightarrow> scraper \<Rightarrow> (string + scrapeResult) \<times> scraper" where
  "scrapeBody w url s0 =
     (if isPdfUrl url
      then
        (case tryPDFParse (urlPdf w) url s0 of
           (result, s1) \<Rightarrow>
             if success result then (Inr (finish result ''pdf'' s1), s1)
             else cascade w url s1)
      else cascade w url s0)"

text \<open>\<open>scrape\<close>: the handler turns an exception of the body into a result.\<close>

definition errorResult :: "string \<Rightarrow> scrapeResult" where
  "errorResult msg = stageResult.extend (failure msg) (scrapeResult.fields ''error'' None)"

definition scrape :: "world \<Rightarrow> string \<Rightarrow> scraper \<Rightarrow> scrapeResult \<times> scraper" where
  "scrape w url s0 =
     (case scrapeBody w url s0 of
        (Inl exn, s1) \<Rightarrow> (errorResult exn, s1)
      | (Inr result, s1) \<Rightarrow> (result, s1))"

section \<open>Events, runs and sample inputs\<close>

text \<open>
  The notions the properties below are stated with, and the concrete pages, URLs and
  worlds they are tried on.
\<close>

text \<open>A page that carries an empty root container and an anti-bot phrase.\<close>

definition spaProtectedPage :: string where
  "spaProtectedPage = ''<body><div id=\"root\"></div>Please enable JavaScript</body>''"



text \<open>A page that assigns a JSON object to \<open>window.__NEXT_DATA__\<close>.\<close>

definition nextDataPage :: string where
  "nextDataPage = ''<script>window.__NEXT_DATA__ = {\"a\":1};</script>''"

text \<open>The events a stage adds, and its counters.\<close>

definition stageCounters :: "stage \<Rightarrow> stats \<Rightarrow> counters" where
  "stageCounters m st =
     (case m of DirectFetch \<Rightarrow> directFetch st | Lightpanda \<Rightarrow> lightpanda st
      | Puppeteer \<Rightarrow> puppeteer st | Pdf \<Rightarrow> pdf st)"

definition countersLe :: "counters \<Rightarrow> counters \<Rightarrow> bool" where
  "countersLe c c' = (attempts c \<le> attempts c' \<and> successes c \<le> successes c')"

definition statsLe :: "stats \<Rightarrow> stats \<Rightarrow> bool" where
  "statsLe st st' =
     (countersLe (directFetch st) (directFetch st') \<and> countersLe (lightpanda st) (lightpanda st')
      \<and> countersLe (puppeteer st) (puppeteer st') \<and> countersLe (pdf st) (pdf st'))"

text \<open>
  What one run of a stage does to the instance: the events it adds, in order, given
  whether the stage reached its outside call and whether it counted a success.
\<close>

definition stageEvents :: "stage \<Rightarrow> bool \<Rightarrow> bool \<Rightarrow> event list" where
  "stageEvents m reached won =
     [AttemptInc m] @ (if reached then [Exec m] else []) @ (if won then [SuccessInc m] else [])"

definition stageStats :: "stage \<Rightarrow> bool \<Rightarrow> stats \<Rightarrow> stats" where
  "stageStats m won st = (if won then bumpSuccesses m (bumpAttempts m st) else bumpAttempts m st)"

text \<open>Replaying events on the counters.\<close>

fun applyEvent :: "event \<Rightarrow> stats \<Rightarrow> stats" where
  "applyEvent (AttemptInc m) st = bumpAttempts m st"
| "applyEvent (SuccessInc m) st = bumpSuccesses m st"
| "applyEvent (Exec m) st = st"

text \<open>\<open>precededBy a b evs\<close>: every \<open>b\<close> in \<open>evs\<close> has an \<open>a\<close> before it.\<close>

fun precededBy :: "event \<Rightarrow> event \<Rightarrow> event list \<Rightarrow> bool" where
  "precededBy a b [] = True"
| "precededBy a b (e # es) = (e = a \<or> (e \<noteq> b \<and> precededBy a b es))"

text \<open>
  \<open>stageRuns evs\<close>: the events are runs of stages one after the other, each an
  increment of the attempt counter, then possibly the outside call, then possibly the
  increment of the success counter of the same stage.
\<close>

fun stageRuns :: "event list \<Rightarrow> bool" where
  "stageRuns [] = True"
| "stageRuns (AttemptInc m # Exec m1 # SuccessInc m2 # es) = (m1 = m \<and> m2 = m \<and> stageRuns es)"
| "stageRuns (AttemptInc m # Exec m1 # es) = (m1 = m \<and> stageRuns es)"
| "stageRuns (AttemptInc m # es) = stageRuns es"
| "stageRuns es = False"

definition methodOf :: "string + scrapeResult \<Rightarrow> string" where
  "methodOf out = (case out of Inl _ \<Rightarrow> ''error'' | Inr r \<Rightarrow> method_r r)"

definition successOf :: "string + scrapeResult \<Rightarrow> bool" where
  "successOf out = (case out of Inl _ \<Rightarrow> False | Inr r \<Rightarrow> success r)"

text \<open>
  The ways the cascade can go after the direct fetch, each with whether the direct fetch
  counted a success, the events that follow it, the method of the outcome (\<open>error\<close> for
  an exception) and its verdict: the direct fetch won; the PDF parser ran; the light engine
  ran and won, or threw; the light engine lost and the full engine was missing, lost, or won.
\<close>

definition cascadeTails :: "(bool \<times> event list \<times> string \<times> bool) list" where
  "cascadeTails =
     [(True, [], ''direct-fetch'', True),
      (False, stageEvents Pdf True True, ''pdf'', True),
      (False, stageEvents Pdf True False, ''unknown'', False),
      (False, stageEvents Lightpanda True True, ''lightpanda'', True),
      (False, stageEvents Lightpanda True False, ''error'', False)] @
     concat (map (\<lambda>reached.
       [(False, stageEvents Lightpanda reached False @ stageEvents Puppeteer False False, ''error'', False),
        (False, stageEvents Lightpanda reached False @ stageEvents Puppeteer True False, ''failed'', False),
        (False, stageEvents Lightpanda reached False @ stageEvents Puppeteer True True, ''puppeteer'', True)])
       [False, True])"

text \<open>
  The ways a whole invocation can go, each with its events, its method and its verdict:
  the PDF parser wins at the gate; or, after no run or a lost run of the PDF parser at the
  gate, the direct fetch runs and the cascade goes one of its ways.
\<close>

definition scrapeRuns :: "(event list \<times> string \<times> bool) list" where
  "scrapeRuns =
     (stageEvents Pdf True True, ''pdf'', True) #
     concat (map (\<lambda>gate.
       map (\<lambda>(wonD, rest, m, good). (gate @ stageEvents DirectFetch True wonD @ rest, m, good))
           cascadeTails)
       [[], stageEvents Pdf True False])"

text \<open>What holds of every way an invocation can go.\<close>

definition runProperty :: "event list \<Rightarrow> string \<Rightarrow> bool \<Rightarrow> bool" where
  "runProperty evs m good =
     (stageRuns evs
      \<and> precededBy (AttemptInc DirectFetch) (AttemptInc Lightpanda) evs
      \<and> precededBy (AttemptInc Lightpanda) (AttemptInc Puppeteer) evs
      \<and> (m = ''failed'' \<longrightarrow>
            count_list evs (AttemptInc DirectFetch) = 1
            \<and> count_list evs (AttemptInc Lightpanda) = 1
            \<and> count_list evs (AttemptInc Puppeteer) = 1)
      \<and> (SuccessInc DirectFetch \<in> set evs \<longleftrightarrow> m = ''direct-fetch'')
      \<and> (SuccessInc Lightpanda \<in> set evs \<longleftrightarrow> m = ''lightpanda'')
      \<and> (SuccessInc Puppeteer \<in> set evs \<longleftrightarrow> m = ''puppeteer'')
      \<and> (SuccessInc Pdf \<in> set evs \<longleftrightarrow> m = ''pdf'')
      \<and> (good \<longleftrightarrow> m \<in> set [''direct-fetch'', ''lightpanda'', ''puppeteer'', ''pdf''])
      \<and> (m \<in> set [''lightpanda'', ''puppeteer'', ''failed'', ''error'']
            \<longrightarrow> AttemptInc Lightpanda \<in> set evs))"

text \<open>
  A world where nothing answers: every request is answered 404, the light engine has no
  binary, the browser does not start. A world whose full engine is not installed. A fresh
  instance without a light-engine path.
\<close>

definition notFound :: httpResponse where
  "notFound =
     \<lparr>ok = False, status = 404, statusText = ''Not Found'', contentTypeHeader = None,
      arrayBuffer = Inr []\<rparr>"

definition deadWorld :: world where
  "deadWorld =
     \<lparr>urlPdf = \<lparr>pdfFetch = Inr notFound, pdfParse = Inl ''no document''\<rparr>,
      directFetched = Inr notFound,
      sniffedPdf = \<lparr>pdfFetch = Inr notFound, pdfParse = Inl ''no document''\<rparr>,
      lightEngine = \<lparr>statSync = Inl ''ENOENT'', process = ProcessError ''spawn ENOENT''\<rparr>,
      fullEngine = \<lparr>available = True, launch = Inl ''Failed to launch the browser process'',
                    page = Inl ''no page''\<rparr>,
      jsonParse = (\<lambda>_. None),
      clock = ''2025-01-01T00:00:00.000Z'',
      textDecode = (\<lambda>bytes. bytes)\<rparr>"

definition noBrowserWorld :: world where
  "noBrowserWorld = deadWorld\<lparr>fullEngine := (fullEngine deadWorld)\<lparr>available := False\<rparr>\<rparr>"

definition freshScraper :: scraper where
  "freshScraper = \<lparr>stats = initialStats, browser = False, lightpandaPath = None, trace = []\<rparr>"

definition paperUrl :: string where
  "paperUrl = ''https://host.test/paper.pdf''"

text \<open>A page as the full engine returns it, and a world where the full engine works.\<close>

definition shopPage :: pageContent where
  "shopPage =
     \<lparr>pc_title = ''Shop'', pc_metaDescription = [], pc_canonical = [],
      pc_headings = [(''h1'', ''Shop'')], pc_paragraphs = [], pc_links = [],
      pc_structuredData = [], pc_bodyText = ''Shop'', pc_url = ''https://shop.test/''\<rparr>"

definition renderingWorld :: ppWorld where
  "renderingWorld = \<lparr>available = True, launch = Inr (), page = Inr shopPage\<rparr>"

definition rendered :: stageResult where
  "rendered = (case fst (tryPuppeteer renderingWorld ''https://shop.test/'' freshScraper) of
                 Inr r \<Rightarrow> r | Inl _ \<Rightarrow> failure [])"

section \<open>Properties of the strings and the classifier\<close>

lemma str_includes_append: "str_includes (pre @ sub @ post) sub"
proof (induction pre)
  case Nil
  show ?case
  proof (cases "sub @ post")
    case Nil
    then show ?thesis by simp
  next
    case (Cons a rest)
    have "prefix sub (sub @ post)" by simp
    with Cons show ?thesis by simp
  qed
next
  case (Cons a pre)
  then show ?case by simp
qed

lemma str_includes_split: "str_includes s sub \<Longrightarrow> \<exists>pre post. s = pre @ sub @ post"
proof (induction s)
  case Nil
  then show ?case by simp
next
  case (Cons a s)
  show ?case
  proof (cases "prefix sub (a # s)")
    case True
    then obtain post where "a # s = sub @ post" by (auto simp: prefix_def)
    then have "a # s = [] @ sub @ post" by simp
    then show ?thesis by blast
  next
    case False
    with Cons.prems have "str_includes s sub" by simp
    with Cons.IH obtain pre post where "s = pre @ sub @ post" by blast
    then have "a # s = (a # pre) @ sub @ post" by simp
    then show ?thesis by blast
  qed
qed

lemma str_includes_iff: "str_includes s sub \<longleftrightarrow> (\<exists>pre post. s = pre @ sub @ post)"
  using str_includes_append str_includes_split by blast

lemma str_includes_inside: "str_includes host site \<Longrightarrow> str_includes (pre @ host @ post) site"
proof -
  assume "str_includes host site"
  then obtain a b where "host = a @ site @ b" using str_includes_split by blast
  then have "pre @ host @ post = (pre @ a) @ site @ (b @ post)" by simp
  then show ?thesis using str_includes_append by metis
qed

lemma simple_site_no_rendering:
  "site \<in> set simpleSites \<Longrightarrow> str_includes url site \<Longrightarrow> detectBrowserRequirement markup url = False"
  by (auto simp: detectBrowserRequirement_def isSimpleSite_def list_ex_iff)

lemma spaProtectedPage_protection: "hasProtection spaProtectedPage"
  by code_simp

lemma spaProtectedPage_spa: "hasSpaIndicators spaProtectedPage"
  by code_simp

lemma spaProtectedPage_text: "visibleText spaProtectedPage = ''Please enable JavaScript''"
  by code_simp

text \<open>
  C2. Whenever the host of the URL contains an entry of the allowlist, as the same
  characters, \<open>detectBrowserRequirement\<close> returns false whatever the markup holds. The
  host is any stretch \<open>host\<close> of the URL, \<open>url = pre @ host @ post\<close>.
\<close>

theorem allowlisted_host_needs_no_rendering:
  assumes "site \<in> set simpleSites" and "str_includes host site" and "url = pre @ host @ post"
  shows "detectBrowserRequirement markup url = False"
  using assms simple_site_no_rendering str_includes_inside by blast

theorem allowlisted_host_needs_no_rendering_witness:
  "''wikipedia.org'' \<in> set simpleSites
   \<and> str_includes ''en.wikipedia.org'' ''wikipedia.org''
   \<and> hasProtection spaProtectedPage
   \<and> hasSpaIndicators spaProtectedPage
   \<and> length (visibleText spaProtectedPage) < 200
   \<and> detectBrowserRequirement spaProtectedPage
         (''https://'' @ ''en.wikipedia.org'' @ ''/wiki/Main_Page'') = False"
proof -
  have h1: "''wikipedia.org'' \<in> set simpleSites" by (simp add: simpleSites_def)
  have h2: "str_includes ''en.wikipedia.org'' ''wikipedia.org''" by code_simp
  have h3: "length (visibleText spaProtectedPage) < 200"
    by (simp add: spaProtectedPage_text)
  show ?thesis
    using h1 h2 h3 spaProtectedPage_protection spaProtectedPage_spa
      allowlisted_host_needs_no_rendering [OF h1 h2 refl]
    by blast
qed

lemma crossSiteUrl_known: "isKnownSpa ''https://twitter.com/home?ref=example.com''"
  by code_simp

text \<open>
  C10. The allowlist test looks for the entry anywhere in the URL string: any URL of the
  form \<open>pre @ site @ post\<close> is answered false for every markup. So are a longer host
  name that ends in an entry and an interactive-platform URL that names an entry in its
  query string.
\<close>

theorem allowlist_is_substring_of_whole_url:
  "(\<forall>site \<in> set simpleSites. \<forall>pre post markup.
       detectBrowserRequirement markup (pre @ site @ post) = False)
   \<and> (\<forall>markup. detectBrowserRequirement markup ''https://notexample.com/'' = False)
   \<and> (\<forall>markup. detectBrowserRequirement markup ''https://twitter.com/home?ref=example.com'' = False)"
proof (intro conjI ballI allI)
  fix site pre post markup
  assume "site \<in> set simpleSites"
  then show "detectBrowserRequirement markup (pre @ site @ post) = False"
    using simple_site_no_rendering str_includes_append by blast
next
  fix markup
  have "''example.com'' \<in> set simpleSites" by (simp add: simpleSites_def)
  moreover have "str_includes ''https://notexample.com/'' ''example.com''" by code_simp
  ultimately show "detectBrowserRequirement markup ''https://notexample.com/'' = False"
    by (rule simple_site_no_rendering)
next
  fix markup
  have "''example.com'' \<in> set simpleSites" by (simp add: simpleSites_def)
  moreover have "str_includes ''https://twitter.com/home?ref=example.com'' ''example.com''"
    by code_simp
  ultimately show
    "detectBrowserRequirement markup ''https://twitter.com/home?ref=example.com'' = False"
    by (rule simple_site_no_rendering)
qed

theorem allowlist_is_substring_of_whole_url_witness:
  "''example.com'' \<in> set simpleSites
   \<and> hasProtection spaProtectedPage \<and> hasSpaIndicators spaProtectedPage
   \<and> isKnownSpa ''https://twitter.com/home?ref=example.com''
   \<and> detectBrowserRequirement spaProtectedPage (''https://not'' @ ''example.com'' @ ''/'') = False
   \<and> detectBrowserRequirement spaProtectedPage ''https://twitter.com/home?ref=example.com'' = False"
proof -
  have h: "''example.com'' \<in> set simpleSites" by (simp add: simpleSites_def)
  show ?thesis
    using h spaProtectedPage_protection spaProtectedPage_spa crossSiteUrl_known
      allowlist_is_substring_of_whole_url
    by blast
qed






section \<open>Properties of the extractor\<close>

lemma join_snoc: "xs \<noteq> [] \<Longrightarrow> join sep (xs @ [y]) = join sep xs @ sep @ y"
  by (induction sep xs rule: join.induct) auto

lemma stringify2_last_string:
  assumes "kvs \<noteq> []"
  shows "stringify2 n (JObj (kvs @ [(k, JStr v)])) =
           (''{'' @ newline @ replicate (n + 2) CHR '' '' @
            join ('','' @ newline @ replicate (n + 2) CHR '' '')
              (map (\<lambda>kv. quoteJSON (fst kv) @ '': '' @ stringify2 (n + 2) (snd kv)) kvs) @
            '','' @ newline @ replicate (n + 2) CHR '' '' @ quoteJSON k @ '': '')
           @ quoteJSON v @ (newline @ replicate n CHR '' '' @ ''}'')"
  using assms by (simp add: join_snoc)

text \<open>
  C4. On a page that assigns an object to \<open>window.__NEXT_DATA__\<close>, to
  \<open>window.__INITIAL_STATE__\<close> or to \<open>window.__INITIAL_DATA__\<close> the pattern finds
  nothing and \<open>windowData\<close> stays null, whatever \<open>JSON.parse\<close> would make of the
  object: the pattern only matches a name followed by two more underscores, and then the
  object is parsed.
\<close>

theorem hydration_blob_not_located:
  "windowDataOf parse nextDataPage = JNull
   \<and> windowDataOf parse ''window.__INITIAL_STATE__ = {\"a\":1};'' = JNull
   \<and> windowDataOf parse ''window.__INITIAL_DATA__ = {\"a\":1};'' = JNull
   \<and> windowDataOf parse ''window.__NEXT_DATA____ = {\"a\":1};''
       = (case parse ''{\"a\":1}'' of Some d \<Rightarrow> d | None \<Rightarrow> JStr ''Found but unparseable'')"
  by code_simp

text \<open>
  C6. The serialized record of a markup is one fixed text before the quoted timestamp and
  one fixed text after it: two extractions of the same markup differ in the value of
  \<open>extractedAt\<close> and in nothing else.
\<close>

theorem extraction_deterministic_modulo_timestamp:
  "\<exists>before after. \<forall>now.
      extractContentFromHTML parse now markup = before @ quoteJSON now @ after"
proof -
  define fields where "fields =
     [(''title'', JStr (capture1 (match_re title_re markup))),
      (''metaDescription'', JStr (capture1 (match_re metaDescription_re markup))),
      (''structuredData'',
         if length (structuredDataOf parse markup) > 0 then JArr (structuredDataOf parse markup)
         else JNull),
      (''windowData'', windowDataOf parse markup),
      (''metaTags'',
         if length (metaTagsOf markup) > 0 then JObj (metaTagsOf markup) else JNull),
      (''content'', JStr (textContentOf markup))]"
  have ne: "fields \<noteq> []" by (simp add: fields_def)
  have rec: "contentRecord parse now markup = JObj (fields @ [(''extractedAt'', JStr now)])" for now
    by (simp add: contentRecord_def fields_def Let_def)
  show ?thesis
    unfolding extractContentFromHTML_def rec stringify2_last_string [OF ne]
    by blast
qed

section \<open>Properties of the statistics\<close>



lemmas rate_defs =
  successRate_def jsTimes_def jsDivide_def roundQuotient_def toFixed1_def Let_def digitChars_def


lemma rate_examples:
  "jsDivide 1 3 = (6004799503160661, - 54)"
  "jsTimes (6004799503160661, - 54) 100 = (4691249611844266, - 47)"
  "successRate \<lparr>attempts = 3, successes = 2\<rparr> = ''66.7%''"
  "successRate \<lparr>attempts = 1, successes = 1\<rparr> = ''100.0%''"
  "successRate \<lparr>attempts = 7, successes = 0\<rparr> = ''0.0%''"
  "successRate \<lparr>attempts = 80, successes = 23\<rparr> = ''28.7%''"
  by (simp_all add: rate_defs)



section \<open>Properties of the orchestrator\<close>

lemma finish_fields [simp]:
  "success (finish r m s) = success r"
  "error (finish r m s) = error r"
  "content (finish r m s) = content r"
  "html (finish r m s) = html r"
  "size_r (finish r m s) = size_r r"
  "method_r (finish r m s) = m"
  "stats_r (finish r m s) = Some (getStats (stats s))"
  by (simp_all add: finish_def stageResult.defs scrapeResult.defs)

lemma errorResult_fields [simp]:
  "success (errorResult msg) = False"
  "error (errorResult msg) = Some msg"
  "method_r (errorResult msg) = ''error''"
  "stats_r (errorResult msg) = None"
  "content (errorResult msg) = None"
  "html (errorResult msg) = None"
  "size_r (errorResult msg) = None"
  by (simp_all add: errorResult_def failure_def stageResult.defs scrapeResult.defs)

lemma failure_fields [simp]:
  "success (failure msg) = False"
  "error (failure msg) = Some msg"
  "isPdf (failure msg) = None"
  "needsBrowser (failure msg) = None"
  "html (failure msg) = None"
  "content (failure msg) = None"
  "size_r (failure msg) = None"
  by (simp_all add: failure_def)

lemma succeeded_fields [simp]:
  "success succeeded = True"
  "error succeeded = None"
  "isPdf succeeded = None"
  "needsBrowser succeeded = None"
  "html succeeded = None"
  "content succeeded = None"
  "size_r succeeded = None"
  by (simp_all add: succeeded_def)

lemma statsLe_refl [simp]: "statsLe st st"
  by (simp add: statsLe_def countersLe_def)

lemma statsLe_trans: "statsLe a b \<Longrightarrow> statsLe b c \<Longrightarrow> statsLe a c"
  by (auto simp: statsLe_def countersLe_def)

lemma stageCounters_bumpAttempts:
  "stageCounters m' (bumpAttempts m st) =
     (if m' = m then (stageCounters m' st)\<lparr>attempts := attempts (stageCounters m' st) + 1\<rparr>
      else stageCounters m' st)"
  by (cases m; cases m') (simp_all add: stageCounters_def)

lemma stageCounters_bumpSuccesses:
  "stageCounters m' (bumpSuccesses m st) =
     (if m' = m then (stageCounters m' st)\<lparr>successes := successes (stageCounters m' st) + 1\<rparr>
      else stageCounters m' st)"
  by (cases m; cases m') (simp_all add: stageCounters_def)

lemma statsLe_bumpAttempts [simp]: "statsLe st (bumpAttempts m st)"
  by (cases m) (simp_all add: statsLe_def countersLe_def)

lemma statsLe_bumpSuccesses [simp]: "statsLe st (bumpSuccesses m st)"
  by (cases m) (simp_all add: statsLe_def countersLe_def)

lemma step_simps [simp]:
  "trace (incAttempts m s) = trace s @ [AttemptInc m]"
  "trace (incSuccesses m s) = trace s @ [SuccessInc m]"
  "trace (exec m s) = trace s @ [Exec m]"
  "stats (incAttempts m s) = bumpAttempts m (stats s)"
  "stats (incSuccesses m s) = bumpSuccesses m (stats s)"
  "stats (exec m s) = stats s"
  "lightpandaPath (incAttempts m s) = lightpandaPath s"
  "lightpandaPath (incSuccesses m s) = lightpandaPath s"
  "lightpandaPath (exec m s) = lightpandaPath s"
  "browser (incAttempts m s) = browser s"
  "browser (incSuccesses m s) = browser s"
  "browser (exec m s) = browser s"
  by (simp_all add: incAttempts_def incSuccesses_def exec_def)

lemma tryDirectFetch_trace:
  "trace (snd (tryDirectFetch parse now decode fetched url s)) =
     trace s @ stageEvents DirectFetch True
       (success (fst (tryDirectFetch parse now decode fetched url s))
        \<and> needsBrowser (fst (tryDirectFetch parse now decode fetched url s)) = Some False)"
  by (simp add: tryDirectFetch_def Let_def stageEvents_def split: sum.split)

lemma tryPDFParse_trace:
  "trace (snd (tryPDFParse pw url s)) =
     trace s @ stageEvents Pdf True (success (fst (tryPDFParse pw url s)))"
  by (simp add: tryPDFParse_def Let_def stageEvents_def split: sum.split)

lemma tryDirectFetch_stats:
  "stats (snd (tryDirectFetch parse now decode fetched url s)) =
     stageStats DirectFetch
       (success (fst (tryDirectFetch parse now decode fetched url s))
        \<and> needsBrowser (fst (tryDirectFetch parse now decode fetched url s)) = Some False) (stats s)"
  by (simp add: tryDirectFetch_def Let_def stageStats_def split: sum.split)

lemma tryDirectFetch_rest:
  "lightpandaPath (snd (tryDirectFetch parse now decode fetched url s)) = lightpandaPath s"
  "browser (snd (tryDirectFetch parse now decode fetched url s)) = browser s"
  "success (fst (tryDirectFetch parse now decode fetched url s))
     \<longrightarrow> needsBrowser (fst (tryDirectFetch parse now decode fetched url s)) = Some True
         \<or> needsBrowser (fst (tryDirectFetch parse now decode fetched url s)) = Some False"
  by (simp_all add: tryDirectFetch_def Let_def split: sum.split)

lemma tryPDFParse_stats:
  "stats (snd (tryPDFParse pw url s)) = stageStats Pdf (success (fst (tryPDFParse pw url s))) (stats s)"
  by (simp add: tryPDFParse_def Let_def stageStats_def split: sum.split)

lemma tryPDFParse_rest:
  "lightpandaPath (snd (tryPDFParse pw url s)) = lightpandaPath s"
  "browser (snd (tryPDFParse pw url s)) = browser s"
  by (simp_all add: tryPDFParse_def Let_def split: sum.split)

lemma tryLightpanda_trace:
  "trace (snd (tryLightpanda parse now lw url s)) =
     trace s @ stageEvents Lightpanda (orElse (lightpandaPath s) [] \<noteq> [])
       (case fst (tryLightpanda parse now lw url s) of Inr r \<Rightarrow> success r | Inl _ \<Rightarrow> False)"
  by (simp add: tryLightpanda_def Let_def stageEvents_def split: sum.split lpProcess.split)

lemma tryLightpanda_stats:
  "stats (snd (tryLightpanda parse now lw url s)) =
     stageStats Lightpanda
       (case fst (tryLightpanda parse now lw url s) of Inr r \<Rightarrow> success r | Inl _ \<Rightarrow> False) (stats s)"
  by (simp add: tryLightpanda_def Let_def stageStats_def split: sum.split lpProcess.split)

lemma tryLightpanda_rest:
  "lightpandaPath (snd (tryLightpanda parse now lw url s)) = lightpandaPath s"
  "browser (snd (tryLightpanda parse now lw url s)) = browser s"
  by (simp_all add: tryLightpanda_def Let_def split: sum.split lpProcess.split)

lemma tryPuppeteer_trace:
  "trace (snd (tryPuppeteer pw url s)) =
     trace s @ stageEvents Puppeteer (available pw)
       (case fst (tryPuppeteer pw url s) of Inr r \<Rightarrow> success r | Inl _ \<Rightarrow> False)"
  by (simp add: tryPuppeteer_def Let_def stageEvents_def split: sum.split)

lemma tryPuppeteer_stats:
  "stats (snd (tryPuppeteer pw url s)) =
     stageStats Puppeteer
       (case fst (tryPuppeteer pw url s) of Inr r \<Rightarrow> success r | Inl _ \<Rightarrow> False) (stats s)"
  by (simp add: tryPuppeteer_def Let_def stageStats_def split: sum.split)

lemma tryPuppeteer_rest:
  "lightpandaPath (snd (tryPuppeteer pw url s)) = lightpandaPath s"
  by (simp_all add: tryPuppeteer_def Let_def split: sum.split)

lemma fold_stageEvents: "fold applyEvent (stageEvents m reached won) st = stageStats m won st"
  by (simp add: stageEvents_def stageStats_def)

lemma statsLe_fold: "statsLe st (fold applyEvent evs st)"
proof (induction evs arbitrary: st)
  case Nil
  show ?case by simp
next
  case (Cons e evs)
  have "statsLe st (applyEvent e st)" by (cases e) simp_all
  then show ?case using Cons.IH statsLe_trans by fastforce
qed

lemma precededBy_iff:
  "a \<noteq> b \<Longrightarrow> precededBy a b evs \<longleftrightarrow> (\<forall>xs ys. evs = xs @ b # ys \<longrightarrow> a \<in> set xs)"
proof (induction evs)
  case Nil
  show ?case by simp
next
  case (Cons e es)
  have split: "(\<forall>xs ys. e # es = xs @ b # ys \<longrightarrow> a \<in> set xs) \<longleftrightarrow>
                 e \<noteq> b \<and> (\<forall>xs ys. es = xs @ b # ys \<longrightarrow> a \<in> set (e # xs))"
  proof
    assume H: "\<forall>xs ys. e # es = xs @ b # ys \<longrightarrow> a \<in> set xs"
    have "e \<noteq> b"
    proof
      assume "e = b"
      then have "e # es = [] @ b # es" by simp
      with H have "a \<in> set []" by blast
      then show False by simp
    qed
    moreover have "a \<in> set (e # xs)" if "es = xs @ b # ys" for xs ys
    proof -
      from that have "e # es = (e # xs) @ b # ys" by simp
      with H show ?thesis by blast
    qed
    ultimately show "e \<noteq> b \<and> (\<forall>xs ys. es = xs @ b # ys \<longrightarrow> a \<in> set (e # xs))" by blast
  next
    assume K: "e \<noteq> b \<and> (\<forall>xs ys. es = xs @ b # ys \<longrightarrow> a \<in> set (e # xs))"
    show "\<forall>xs ys. e # es = xs @ b # ys \<longrightarrow> a \<in> set xs"
    proof (intro allI impI)
      fix xs ys
      assume eq: "e # es = xs @ b # ys"
      show "a \<in> set xs"
      proof (cases xs)
        case Nil
        with eq K show ?thesis by simp
      next
        case (Cons x xs')
        with eq have "x = e" and "es = xs' @ b # ys" by simp_all
        with K Cons show ?thesis by blast
      qed
    qed
  qed
  show ?case
    unfolding split using Cons by auto
qed

lemma tryLightpanda_outcome:
  "(case fst (tryLightpanda parse now lw url s) of Inr r \<Rightarrow> success r | Inl _ \<Rightarrow> True)
     \<longrightarrow> orElse (lightpandaPath s) [] \<noteq> []"
  by (simp add: tryLightpanda_def Let_def split: sum.split lpProcess.split)

lemma tryPuppeteer_outcome:
  "(case fst (tryPuppeteer pw url s) of Inr r \<Rightarrow> True | Inl _ \<Rightarrow> False) = available pw"
  by (simp add: tryPuppeteer_def Let_def split: sum.split)

lemma cascade_run:
  "\<exists>wonD rest.
     trace (snd (cascade w url s)) = trace s @ stageEvents DirectFetch True wonD @ rest
     \<and> stats (snd (cascade w url s)) = fold applyEvent (stageEvents DirectFetch True wonD @ rest) (stats s)
     \<and> (wonD, rest, methodOf (fst (cascade w url s)), successOf (fst (cascade w url s)))
           \<in> set cascadeTails"
proof -
  define D where "D = tryDirectFetch (jsonParse w) (clock w) (textDecode w) (directFetched w) url s"
  define d where "d = fst D"
  define s1 where "s1 = snd D"
  define wonD where "wonD = (success d \<and> needsBrowser d = Some False)"
  have D: "tryDirectFetch (jsonParse w) (clock w) (textDecode w) (directFetched w) url s = (d, s1)"
    by (simp add: D_def d_def s1_def)
  have t1: "trace s1 = trace s @ stageEvents DirectFetch True wonD"
    unfolding s1_def d_def D_def wonD_def by (rule tryDirectFetch_trace)
  have st1: "stats s1 = fold applyEvent (stageEvents DirectFetch True wonD) (stats s)"
    unfolding s1_def d_def D_def wonD_def fold_stageEvents by (rule tryDirectFetch_stats)
  have nb: "success d \<longrightarrow> needsBrowser d = Some True \<or> needsBrowser d = Some False"
    unfolding d_def D_def by (rule tryDirectFetch_rest)
  show ?thesis
  proof (cases "success d \<and> needsBrowser d \<noteq> Some True")
    case True
    then have c: "cascade w url s = (Inr (finish d ''direct-fetch'' s1), s1)"
      by (simp add: cascade_def D)
    have "wonD" using True nb by (auto simp: wonD_def)
    then show ?thesis using t1 st1 True
      by (intro exI [of _ wonD] exI [of _ "[]"])
         (simp add: c methodOf_def successOf_def cascadeTails_def)
  next
    case notDirect: False
    then have nw: "\<not> wonD" using nb by (auto simp: wonD_def)
    show ?thesis
    proof (cases "isPdf d = Some True")
      case True
      define P where "P = tryPDFParse (sniffedPdf w) url s1"
      have c: "cascade w url s =
                 (Inr (finish (fst P) (if success (fst P) then ''pdf'' else ''unknown'') (snd P)), snd P)"
        using notDirect True by (auto simp: cascade_def D P_def case_prod_beta)
      have t2: "trace (snd P) = trace s1 @ stageEvents Pdf True (success (fst P))"
        unfolding P_def by (rule tryPDFParse_trace)
      have st2: "stats (snd P) = fold applyEvent (stageEvents Pdf True (success (fst P))) (stats s1)"
        unfolding P_def fold_stageEvents by (rule tryPDFParse_stats)
      have "(wonD, stageEvents Pdf True (success (fst P)),
              methodOf (fst (cascade w url s)), successOf (fst (cascade w url s))) \<in> set cascadeTails"
        using nw by (simp add: c methodOf_def successOf_def cascadeTails_def)
      then show ?thesis
        by (intro exI [of _ wonD] exI [of _ "stageEvents Pdf True (success (fst P))"])
           (simp add: c t2 t1 st2 st1)
    next
      case notPdf: False
      define L where "L = tryLightpanda (jsonParse w) (clock w) (lightEngine w) url s1"
      define wonL where "wonL = (case fst L of Inr r \<Rightarrow> success r | Inl _ \<Rightarrow> False)"
      define reachedL where "reachedL = (orElse (lightpandaPath s1) [] \<noteq> [])"
      have t2: "trace (snd L) = trace s1 @ stageEvents Lightpanda reachedL wonL"
        unfolding L_def wonL_def reachedL_def by (rule tryLightpanda_trace)
      have st2: "stats (snd L) = fold applyEvent (stageEvents Lightpanda reachedL wonL) (stats s1)"
        unfolding L_def wonL_def fold_stageEvents by (rule tryLightpanda_stats)
      have wr: "(case fst L of Inr r \<Rightarrow> success r | Inl _ \<Rightarrow> True) \<longrightarrow> reachedL"
        unfolding L_def reachedL_def by (rule tryLightpanda_outcome)
      show ?thesis
      proof (cases "fst L")
        case (Inl exn)
        then have c: "cascade w url s = (Inl exn, snd L)"
          using notDirect notPdf by (auto simp: cascade_def D L_def case_prod_beta)
        have "\<not> wonL" and "reachedL" using Inl wr by (simp_all add: wonL_def)
        then have "(wonD, stageEvents Lightpanda reachedL wonL,
                methodOf (fst (cascade w url s)), successOf (fst (cascade w url s))) \<in> set cascadeTails"
          using nw by (simp add: c methodOf_def successOf_def cascadeTails_def)
        then show ?thesis
          by (intro exI [of _ wonD] exI [of _ "stageEvents Lightpanda reachedL wonL"])
             (simp add: c t2 t1 st2 st1)
      next
        case (Inr l)
        show ?thesis
        proof (cases "success l")
          case True
          then have c: "cascade w url s = (Inr (finish l ''lightpanda'' (snd L)), snd L)"
            using notDirect notPdf Inr by (auto simp: cascade_def D L_def case_prod_beta)
          have "wonL" and "reachedL" using Inr True wr by (simp_all add: wonL_def)
          then have "(wonD, stageEvents Lightpanda reachedL wonL,
                methodOf (fst (cascade w url s)), successOf (fst (cascade w url s))) \<in> set cascadeTails"
            using nw True by (simp add: c methodOf_def successOf_def cascadeTails_def)
          then show ?thesis
            by (intro exI [of _ wonD] exI [of _ "stageEvents Lightpanda reachedL wonL"])
               (simp add: c t2 t1 st2 st1)
        next
          case lFailed: False
          then have wl: "\<not> wonL" using Inr by (simp add: wonL_def)
          define U where "U = tryPuppeteer (fullEngine w) url (snd L)"
          define wonU where "wonU = (case fst U of Inr r \<Rightarrow> success r | Inl _ \<Rightarrow> False)"
          define reachedU where "reachedU = available (fullEngine w)"
          have t3: "trace (snd U) = trace (snd L) @ stageEvents Puppeteer reachedU wonU"
            unfolding U_def wonU_def reachedU_def by (rule tryPuppeteer_trace)
          have st3: "stats (snd U) = fold applyEvent (stageEvents Puppeteer reachedU wonU) (stats (snd L))"
            unfolding U_def wonU_def fold_stageEvents by (rule tryPuppeteer_stats)
          have ru: "(case fst U of Inr r \<Rightarrow> True | Inl _ \<Rightarrow> False) = reachedU"
            unfolding U_def reachedU_def by (rule tryPuppeteer_outcome)
          have c: "cascade w url s =
                     (case fst U of Inl exn \<Rightarrow> Inl exn
                      | Inr r \<Rightarrow> Inr (finish r (if success r then ''puppeteer'' else ''failed'') (snd U)),
                      snd U)"
            using notDirect notPdf Inr lFailed
            by (auto simp: cascade_def D L_def U_def case_prod_beta split: sum.split)
          have m: "(wonD, stageEvents Lightpanda reachedL False @ stageEvents Puppeteer reachedU wonU,
                     methodOf (fst (cascade w url s)), successOf (fst (cascade w url s))) \<in> set cascadeTails"
          proof (cases "fst U")
            case (Inl exn)
            then have "\<not> reachedU" and "\<not> wonU" using ru by (simp_all add: wonU_def)
            then show ?thesis
              using nw Inl by (cases reachedL) (simp_all add: c methodOf_def successOf_def cascadeTails_def)
          next
            case (Inr u)
            then have "reachedU" and "wonU = success u" using ru by (simp_all add: wonU_def)
            then show ?thesis
              using nw Inr
              by (cases reachedL; cases "success u")
                 (simp_all add: c methodOf_def successOf_def cascadeTails_def)
          qed
          have "trace (snd (cascade w url s)) =
                  trace s @ stageEvents DirectFetch True wonD @
                    (stageEvents Lightpanda reachedL False @ stageEvents Puppeteer reachedU wonU)"
            using wl by (simp add: c t3 t2 t1)
          moreover have "stats (snd (cascade w url s)) =
                  fold applyEvent (stageEvents DirectFetch True wonD @
                    (stageEvents Lightpanda reachedL False @ stageEvents Puppeteer reachedU wonU))
                    (stats s)"
            using wl by (simp add: c st3 st2 st1)
          ultimately show ?thesis
            using m
            by (intro exI [of _ wonD]
                  exI [of _ "stageEvents Lightpanda reachedL False @ stageEvents Puppeteer reachedU wonU"])
               blast
        qed
      qed
    qed
  qed
qed

lemma scrapeBody_run:
  "\<exists>evs.
     trace (snd (scrapeBody w url s)) = trace s @ evs
     \<and> stats (snd (scrapeBody w url s)) = fold applyEvent evs (stats s)
     \<and> (evs, methodOf (fst (scrapeBody w url s)), successOf (fst (scrapeBody w url s)))
           \<in> set scrapeRuns"
proof (cases "isPdfUrl url")
  case False
  then have b: "scrapeBody w url s = cascade w url s" by (simp add: scrapeBody_def)
  obtain wonD rest where c:
    "trace (snd (cascade w url s)) = trace s @ stageEvents DirectFetch True wonD @ rest"
    "stats (snd (cascade w url s)) = fold applyEvent (stageEvents DirectFetch True wonD @ rest) (stats s)"
    "(wonD, rest, methodOf (fst (cascade w url s)), successOf (fst (cascade w url s))) \<in> set cascadeTails"
    using cascade_run by blast
  have "(stageEvents DirectFetch True wonD @ rest,
          methodOf (fst (cascade w url s)), successOf (fst (cascade w url s))) \<in> set scrapeRuns"
    unfolding scrapeRuns_def using c(3) by (force simp: image_iff)
  then show ?thesis
    unfolding b using c(1,2)
    by (intro exI [of _ "stageEvents DirectFetch True wonD @ rest"]) simp
next
  case True
  define P where "P = tryPDFParse (urlPdf w) url s"
  have t0: "trace (snd P) = trace s @ stageEvents Pdf True (success (fst P))"
    unfolding P_def by (rule tryPDFParse_trace)
  have st0: "stats (snd P) = fold applyEvent (stageEvents Pdf True (success (fst P))) (stats s)"
    unfolding P_def fold_stageEvents by (rule tryPDFParse_stats)
  show ?thesis
  proof (cases "success (fst P)")
    case won: True
    then have b: "scrapeBody w url s = (Inr (finish (fst P) ''pdf'' (snd P)), snd P)"
      using True by (simp add: scrapeBody_def P_def case_prod_beta)
    show ?thesis
      using won t0 st0
      by (intro exI [of _ "stageEvents Pdf True True"])
         (simp add: b scrapeRuns_def methodOf_def successOf_def)
  next
    case lost: False
    then have b: "scrapeBody w url s = cascade w url (snd P)"
      using True by (simp add: scrapeBody_def P_def case_prod_beta)
    obtain wonD rest where c:
      "trace (snd (cascade w url (snd P))) = trace (snd P) @ stageEvents DirectFetch True wonD @ rest"
      "stats (snd (cascade w url (snd P))) =
         fold applyEvent (stageEvents DirectFetch True wonD @ rest) (stats (snd P))"
      "(wonD, rest, methodOf (fst (cascade w url (snd P))), successOf (fst (cascade w url (snd P))))
         \<in> set cascadeTails"
      using cascade_run by blast
    have "(stageEvents Pdf True False @ stageEvents DirectFetch True wonD @ rest,
            methodOf (fst (scrapeBody w url s)), successOf (fst (scrapeBody w url s))) \<in> set scrapeRuns"
      unfolding scrapeRuns_def b using c(3) by (force simp: image_iff)
    then show ?thesis
      using lost t0 st0 c(1,2)
      by (intro exI [of _ "stageEvents Pdf True False @ stageEvents DirectFetch True wonD @ rest"])
         (simp add: b)
  qed
qed

lemma scrape_proj:
  "snd (scrape w url s) = snd (scrapeBody w url s)"
  "method_r (fst (scrape w url s)) = methodOf (fst (scrapeBody w url s))"
  "success (fst (scrape w url s)) = successOf (fst (scrapeBody w url s))"
  by (simp_all add: scrape_def methodOf_def successOf_def case_prod_beta split: sum.split)

lemma attempts_fold:
  "attempts (stageCounters m (fold applyEvent evs st)) =
     attempts (stageCounters m st) + count_list evs (AttemptInc m)"
proof (induction evs arbitrary: st)
  case Nil
  show ?case by simp
next
  case (Cons e evs)
  show ?case
    by (cases e) (auto simp: Cons stageCounters_bumpAttempts stageCounters_bumpSuccesses)
qed

lemma scrapeRuns_property: "list_all (\<lambda>(evs, m, good). runProperty evs m good) scrapeRuns"
  by code_simp

lemma paperUrl_pdf: "isPdfUrl paperUrl" "endsWith (toLowerCase paperUrl) ''.pdf''"
  by code_simp+

lemmas run_defs =
  scrape_def scrapeBody_def cascade_def tryPDFParse_def tryDirectFetch_def tryLightpanda_def
  tryPuppeteer_def deadWorld_def noBrowserWorld_def freshScraper_def notFound_def Let_def
  orElse_def incAttempts_def incSuccesses_def exec_def initialStats_def

lemma dead_pdf_parse: "\<not> success (fst (tryPDFParse (urlPdf deadWorld) paperUrl freshScraper))"
  by (simp add: run_defs)

lemma dead_run:
  "method_r (fst (scrape deadWorld paperUrl freshScraper)) = ''failed''"
  "success (fst (scrape deadWorld paperUrl freshScraper)) = False"
  "error (fst (scrape deadWorld paperUrl freshScraper)) = Some ''Failed to launch the browser process''"
  "trace (snd (scrape deadWorld paperUrl freshScraper)) =
     [AttemptInc Pdf, Exec Pdf, AttemptInc DirectFetch, Exec DirectFetch, AttemptInc Lightpanda,
      AttemptInc Puppeteer, Exec Puppeteer]"
  "attempts (pdf (stats (snd (scrape deadWorld paperUrl freshScraper)))) = 1"
  "attempts (directFetch (stats (snd (scrape deadWorld paperUrl freshScraper)))) = 1"
  "attempts (lightpanda (stats (snd (scrape deadWorld paperUrl freshScraper)))) = 1"
  "attempts (puppeteer (stats (snd (scrape deadWorld paperUrl freshScraper)))) = 1"
  by (simp_all add: run_defs paperUrl_pdf)

lemma noBrowser_run:
  "fst (scrape noBrowserWorld paperUrl freshScraper) = errorResult ''Puppeteer is not available''"
  "fst (scrapeBody noBrowserWorld paperUrl freshScraper) = Inl ''Puppeteer is not available''"
  "attempts (puppeteer (stats (snd (scrape noBrowserWorld paperUrl freshScraper)))) = 1"
  by (simp_all add: run_defs paperUrl_pdf)

lemma scrape_run:
  "\<exists>evs.
     trace (snd (scrape w url s)) = trace s @ evs
     \<and> stats (snd (scrape w url s)) = fold applyEvent evs (stats s)
     \<and> (evs, method_r (fst (scrape w url s)), success (fst (scrape w url s))) \<in> set scrapeRuns
     \<and> runProperty evs (method_r (fst (scrape w url s))) (success (fst (scrape w url s)))"
proof -
  obtain evs where e:
    "trace (snd (scrapeBody w url s)) = trace s @ evs"
    "stats (snd (scrapeBody w url s)) = fold applyEvent evs (stats s)"
    "(evs, methodOf (fst (scrapeBody w url s)), successOf (fst (scrapeBody w url s))) \<in> set scrapeRuns"
    using scrapeBody_run by blast
  have "runProperty evs (methodOf (fst (scrapeBody w url s))) (successOf (fst (scrapeBody w url s)))"
    using e(3) scrapeRuns_property by (auto simp: list_all_iff)
  then show ?thesis
    using e unfolding scrape_proj by blast
qed

text \<open>
  C8. The events \<open>evs\<close> an invocation adds replay to its counters, and they are runs
  of stages, each opened by the increment of the stage's attempt counter, before the
  stage's outside call and before the increment of its success counter. Every increment of
  the light engine's attempt counter has one of the direct fetch before it, every increment
  of the full engine's has one of the light engine before it, and an invocation that ends
  with \<open>lightpanda\<close>, \<open>puppeteer\<close>, \<open>failed\<close> or \<open>error\<close> has incremented the light
  engine's. A result \<open>failed\<close> comes after exactly one increment of each of the three
  attempt counters. A success counter is incremented exactly when the result names that
  stage as its method, which are the successful results. No counter decreases. (When the
  direct fetch finds a PDF the PDF parser runs instead, and neither engine is attempted.)
\<close>

theorem cascade_counter_ordering:
  assumes "scrape w url s = (r, s')"
  shows "\<exists>evs.
     trace s' = trace s @ evs
     \<and> stats s' = fold applyEvent evs (stats s)
     \<and> stageRuns evs
     \<and> precededBy (AttemptInc DirectFetch) (AttemptInc Lightpanda) evs
     \<and> precededBy (AttemptInc Lightpanda) (AttemptInc Puppeteer) evs
     \<and> (method_r r \<in> set [''lightpanda'', ''puppeteer'', ''failed'', ''error'']
          \<longrightarrow> AttemptInc Lightpanda \<in> set evs)
     \<and> (method_r r = ''failed'' \<longrightarrow>
          count_list evs (AttemptInc DirectFetch) = 1
          \<and> count_list evs (AttemptInc Lightpanda) = 1
          \<and> count_list evs (AttemptInc Puppeteer) = 1
          \<and> attempts (directFetch (stats s')) = attempts (directFetch (stats s)) + 1
          \<and> attempts (lightpanda (stats s')) = attempts (lightpanda (stats s)) + 1
          \<and> attempts (puppeteer (stats s')) = attempts (puppeteer (stats s)) + 1)
     \<and> (SuccessInc DirectFetch \<in> set evs \<longleftrightarrow> method_r r = ''direct-fetch'')
     \<and> (SuccessInc Lightpanda \<in> set evs \<longleftrightarrow> method_r r = ''lightpanda'')
     \<and> (SuccessInc Puppeteer \<in> set evs \<longleftrightarrow> method_r r = ''puppeteer'')
     \<and> (SuccessInc Pdf \<in> set evs \<longleftrightarrow> method_r r = ''pdf'')
     \<and> (success r \<longleftrightarrow> method_r r \<in> set [''direct-fetch'', ''lightpanda'', ''puppeteer'', ''pdf''])
     \<and> statsLe (stats s) (stats s')"
proof -
  have r: "r = fst (scrape w url s)" and s': "s' = snd (scrape w url s)"
    using assms by simp_all
  obtain evs where e:
    "trace s' = trace s @ evs"
    "stats s' = fold applyEvent evs (stats s)"
    "runProperty evs (method_r r) (success r)"
    unfolding r s' using scrape_run by blast
  have le: "statsLe (stats s) (stats s')"
    unfolding e(2) by (rule statsLe_fold)
  have counts:
    "attempts (directFetch (stats s')) = attempts (directFetch (stats s)) + count_list evs (AttemptInc DirectFetch)"
    "attempts (lightpanda (stats s')) = attempts (lightpanda (stats s)) + count_list evs (AttemptInc Lightpanda)"
    "attempts (puppeteer (stats s')) = attempts (puppeteer (stats s)) + count_list evs (AttemptInc Puppeteer)"
    using attempts_fold [of DirectFetch evs "stats s"] attempts_fold [of Lightpanda evs "stats s"]
      attempts_fold [of Puppeteer evs "stats s"]
    by (simp_all add: e(2) stageCounters_def)
  show ?thesis
    using e(1,2) e(3) [unfolded runProperty_def] le counts
    by (intro exI [of _ evs]) simp
qed

theorem cascade_counter_ordering_witness:
  "scrape deadWorld paperUrl freshScraper
     = (fst (scrape deadWorld paperUrl freshScraper), snd (scrape deadWorld paperUrl freshScraper))
   \<and> method_r (fst (scrape deadWorld paperUrl freshScraper)) = ''failed''
   \<and> trace (snd (scrape deadWorld paperUrl freshScraper)) =
       [AttemptInc Pdf, Exec Pdf, AttemptInc DirectFetch, Exec DirectFetch, AttemptInc Lightpanda,
        AttemptInc Puppeteer, Exec Puppeteer]
   \<and> attempts (directFetch (stats (snd (scrape deadWorld paperUrl freshScraper)))) = 1
   \<and> attempts (lightpanda (stats (snd (scrape deadWorld paperUrl freshScraper)))) = 1
   \<and> attempts (puppeteer (stats (snd (scrape deadWorld paperUrl freshScraper)))) = 1
   \<and> statsLe (stats freshScraper) (stats (snd (scrape deadWorld paperUrl freshScraper)))"
proof -
  from cascade_counter_ordering [OF prod.collapse [symmetric], of deadWorld paperUrl freshScraper]
  have "statsLe (stats freshScraper) (stats (snd (scrape deadWorld paperUrl freshScraper)))"
    by blast
  with dead_run show ?thesis by simp
qed

lemma tryPuppeteer_unavailable:
  "\<not> available pw \<Longrightarrow> tryPuppeteer pw url s = (Inl ''Puppeteer is not available'', incAttempts Puppeteer s)"
  by (simp add: tryPuppeteer_def Let_def)

lemma tryPuppeteer_throws:
  "fst (tryPuppeteer pw url s) = Inl exn \<Longrightarrow> exn = ''Puppeteer is not available'' \<and> \<not> available pw"
  by (simp add: tryPuppeteer_def Let_def split: if_splits sum.splits)

lemma tryLightpanda_throws:
  "fst (tryLightpanda parse now lw url s) = Inl exn \<Longrightarrow> process lw = SpawnThrows exn"
  by (simp add: tryLightpanda_def Let_def split: if_splits sum.splits lpProcess.splits)

lemma cascade_throws:
  assumes "fst (cascade w url s) = Inl exn"
  shows "(exn = ''Puppeteer is not available'' \<and> \<not> available (fullEngine w))
         \<or> process (lightEngine w) = SpawnThrows exn"
  using assms tryPuppeteer_throws tryLightpanda_throws
  by (fastforce simp: cascade_def case_prod_beta split: if_splits sum.splits)

lemma scrapeBody_throws:
  assumes "fst (scrapeBody w url s) = Inl exn"
  shows "(exn = ''Puppeteer is not available'' \<and> \<not> available (fullEngine w))
         \<or> process (lightEngine w) = SpawnThrows exn"
  using assms cascade_throws
  by (fastforce simp: scrapeBody_def case_prod_beta split: if_splits)

lemma stageStats_other:
  "m \<noteq> m' \<Longrightarrow> stageCounters m' (stageStats m won st) = stageCounters m' st"
  by (simp add: stageStats_def stageCounters_bumpAttempts stageCounters_bumpSuccesses)

lemma stageStats_attempts:
  "attempts (stageCounters m (stageStats m won st)) = attempts (stageCounters m st) + 1"
  by (simp add: stageStats_def stageCounters_bumpAttempts stageCounters_bumpSuccesses)

lemma cascade_no_browser:
  assumes "\<not> available (fullEngine w)"
  shows "fst (cascade w url s) = Inl ''Puppeteer is not available''
         \<or> stageCounters Puppeteer (stats (snd (cascade w url s))) = stageCounters Puppeteer (stats s)"
  using assms
  by (auto simp: cascade_def case_prod_beta tryPuppeteer_unavailable tryDirectFetch_stats
        tryPDFParse_stats tryLightpanda_stats stageStats_other split: sum.splits)

lemma scrapeBody_no_browser:
  assumes "\<not> available (fullEngine w)"
  shows "fst (scrapeBody w url s) = Inl ''Puppeteer is not available''
         \<or> stageCounters Puppeteer (stats (snd (scrapeBody w url s))) = stageCounters Puppeteer (stats s)"
proof (cases "isPdfUrl url \<and> \<not> success (fst (tryPDFParse (urlPdf w) url s))")
  case True
  then have b: "scrapeBody w url s = cascade w url (snd (tryPDFParse (urlPdf w) url s))"
    by (simp add: scrapeBody_def case_prod_beta)
  show ?thesis
    unfolding b
    using cascade_no_browser [OF assms, of url "snd (tryPDFParse (urlPdf w) url s)"]
    by (simp add: tryPDFParse_stats stageStats_other)
next
  case False
  then show ?thesis
    using cascade_no_browser [OF assms, of url s]
    by (auto simp: scrapeBody_def case_prod_beta tryPDFParse_stats stageStats_other)
qed

text \<open>
  C9. \<open>scrape\<close> returns a result on every input. An exception of the body is turned
  into the result with \<open>success\<close> false, method \<open>error\<close> and the message of the
  exception; the only exceptions are the one of a missing full engine and a throw of
  \<open>spawn\<close>. When the full engine is missing, either its stage is never entered or the
  result is the error result with the message \<open>Puppeteer is not available\<close>.
\<close>

theorem scrape_never_throws:
  "(\<forall>exn s1. scrapeBody w url s = (Inl exn, s1) \<longrightarrow>
       scrape w url s = (errorResult exn, s1)
       \<and> success (errorResult exn) = False
       \<and> method_r (errorResult exn) = ''error''
       \<and> error (errorResult exn) = Some exn
       \<and> ((exn = ''Puppeteer is not available'' \<and> \<not> available (fullEngine w))
           \<or> process (lightEngine w) = SpawnThrows exn))
   \<and> (\<forall>r s1. scrapeBody w url s = (Inr r, s1) \<longrightarrow> scrape w url s = (r, s1))
   \<and> (\<not> available (fullEngine w) \<longrightarrow>
         fst (scrape w url s) = errorResult ''Puppeteer is not available''
         \<or> puppeteer (stats (snd (scrape w url s))) = puppeteer (stats s))"
proof (intro conjI allI impI)
  fix exn s1
  assume b: "scrapeBody w url s = (Inl exn, s1)"
  then show "scrape w url s = (errorResult exn, s1)" by (simp add: scrape_def)
  show "success (errorResult exn) = False" "method_r (errorResult exn) = ''error''"
    "error (errorResult exn) = Some exn" by simp_all
  from b have "fst (scrapeBody w url s) = Inl exn" by simp
  then show "(exn = ''Puppeteer is not available'' \<and> \<not> available (fullEngine w))
           \<or> process (lightEngine w) = SpawnThrows exn"
    by (rule scrapeBody_throws)
next
  fix r s1
  assume "scrapeBody w url s = (Inr r, s1)"
  then show "scrape w url s = (r, s1)" by (simp add: scrape_def)
next
  assume "\<not> available (fullEngine w)"
  from scrapeBody_no_browser [OF this, of url s]
  show "fst (scrape w url s) = errorResult ''Puppeteer is not available''
         \<or> puppeteer (stats (snd (scrape w url s))) = puppeteer (stats s)"
    by (auto simp: scrape_def case_prod_beta stageCounters_def split: sum.splits)
qed

lemma noBrowser_facts:
  "\<not> available (fullEngine noBrowserWorld)"
  "puppeteer (stats freshScraper) = \<lparr>attempts = 0, successes = 0\<rparr>"
  "puppeteer (stats (snd (scrape noBrowserWorld paperUrl freshScraper))) = \<lparr>attempts = 1, successes = 0\<rparr>"
  by (simp_all add: run_defs paperUrl_pdf)

theorem scrape_never_throws_witness:
  "\<not> available (fullEngine noBrowserWorld)
   \<and> puppeteer (stats (snd (scrape noBrowserWorld paperUrl freshScraper))) \<noteq> puppeteer (stats freshScraper)
   \<and> fst (scrape noBrowserWorld paperUrl freshScraper) = errorResult ''Puppeteer is not available''
   \<and> success (fst (scrape noBrowserWorld paperUrl freshScraper)) = False
   \<and> method_r (fst (scrape noBrowserWorld paperUrl freshScraper)) = ''error''
   \<and> error (fst (scrape noBrowserWorld paperUrl freshScraper)) = Some ''Puppeteer is not available''"
proof -
  have d: "puppeteer (stats (snd (scrape noBrowserWorld paperUrl freshScraper)))
             \<noteq> puppeteer (stats freshScraper)"
    by (simp add: noBrowser_facts)
  from scrape_never_throws [of noBrowserWorld paperUrl freshScraper] noBrowser_facts(1) d
  have "fst (scrape noBrowserWorld paperUrl freshScraper) = errorResult ''Puppeteer is not available''"
    by blast
  then show ?thesis using noBrowser_facts(1) d by simp
qed

lemma cascade_direct_attempt:
  "attempts (directFetch (stats (snd (cascade w url s)))) = attempts (directFetch (stats s)) + 1"
proof -
  obtain wonD rest where c:
    "stats (snd (cascade w url s)) = fold applyEvent (stageEvents DirectFetch True wonD @ rest) (stats s)"
    "(wonD, rest, methodOf (fst (cascade w url s)), successOf (fst (cascade w url s))) \<in> set cascadeTails"
    using cascade_run by blast
  have "list_all (\<lambda>(wonD, rest, m, good). count_list rest (AttemptInc DirectFetch) = 0) cascadeTails"
    by code_simp
  with c(2) have "count_list rest (AttemptInc DirectFetch) = 0"
    by (auto simp: list_all_iff)
  then show ?thesis
    using attempts_fold [of DirectFetch "stageEvents DirectFetch True wonD @ rest" "stats s"]
    by (simp add: c(1) stageCounters_def stageEvents_def)
qed

text \<open>
  C1, amended. For a PDF address (the lowercased URL ends in \<open>.pdf\<close>, or contains
  \<open>.pdf?\<close> or \<open>/pdf/\<close>) whose PDF parse fails, \<open>scrape\<close> goes on with the cascade
  from the state the parser left: the direct fetch is attempted exactly once. The result
  has method \<open>pdf\<close> only with \<open>success\<close> true.
\<close>

theorem pdf_failure_falls_through:
  assumes "isPdfUrl url" and "\<not> success (fst (tryPDFParse (urlPdf w) url s))"
  shows "scrapeBody w url s = cascade w url (snd (tryPDFParse (urlPdf w) url s))
         \<and> attempts (directFetch (stats (snd (scrape w url s)))) = attempts (directFetch (stats s)) + 1
         \<and> (method_r (fst (scrape w url s)) = ''pdf'' \<longrightarrow> success (fst (scrape w url s)))"
proof -
  have b: "scrapeBody w url s = cascade w url (snd (tryPDFParse (urlPdf w) url s))"
    using assms by (simp add: scrapeBody_def case_prod_beta)
  have "directFetch (stats (snd (tryPDFParse (urlPdf w) url s))) = directFetch (stats s)"
    using stageStats_other [of Pdf DirectFetch] by (simp add: tryPDFParse_stats stageCounters_def)
  then have a: "attempts (directFetch (stats (snd (scrape w url s)))) = attempts (directFetch (stats s)) + 1"
    by (simp add: scrape_proj b cascade_direct_attempt)
  obtain evs where "runProperty evs (method_r (fst (scrape w url s))) (success (fst (scrape w url s)))"
    using scrape_run by blast
  then have "method_r (fst (scrape w url s)) = ''pdf'' \<longrightarrow> success (fst (scrape w url s))"
    by (simp add: runProperty_def)
  with a b show ?thesis by blast
qed

theorem pdf_failure_falls_through_witness:
  "isPdfUrl paperUrl
   \<and> \<not> success (fst (tryPDFParse (urlPdf deadWorld) paperUrl freshScraper))
   \<and> attempts (directFetch (stats freshScraper)) = 0
   \<and> attempts (directFetch (stats (snd (scrape deadWorld paperUrl freshScraper)))) = 1
   \<and> method_r (fst (scrape deadWorld paperUrl freshScraper)) \<noteq> ''pdf''"
proof -
  have z: "attempts (directFetch (stats freshScraper)) = 0"
    by (simp add: freshScraper_def initialStats_def)
  from pdf_failure_falls_through [OF paperUrl_pdf(1) dead_pdf_parse]
  have "attempts (directFetch (stats (snd (scrape deadWorld paperUrl freshScraper))))
          = attempts (directFetch (stats freshScraper)) + 1"
    by blast
  then show ?thesis
    using z paperUrl_pdf(1) dead_pdf_parse dead_run(1) by simp
qed

text \<open>
  C1, as stated, fails: for a URL ending in \<open>.pdf\<close> whose document is answered 404, the
  invocation goes on to the direct fetch, the light engine and the full engine, and ends
  with method \<open>failed\<close>.
\<close>

theorem pdf_failure_terminates_counterexample:
  "endsWith (toLowerCase paperUrl) ''.pdf''
   \<and> \<not> success (fst (tryPDFParse (urlPdf deadWorld) paperUrl freshScraper))
   \<and> method_r (fst (scrape deadWorld paperUrl freshScraper)) = ''failed''
   \<and> method_r (fst (scrape deadWorld paperUrl freshScraper)) \<noteq> ''pdf''
   \<and> trace (snd (scrape deadWorld paperUrl freshScraper)) =
       [AttemptInc Pdf, Exec Pdf, AttemptInc DirectFetch, Exec DirectFetch, AttemptInc Lightpanda,
        AttemptInc Puppeteer, Exec Puppeteer]"
  using paperUrl_pdf(2) dead_pdf_parse dead_run(1,4) by simp

lemma length_join:
  "length (join sep xs) = sum_list (map length xs) + (length xs - 1) * length sep"
  by (induction sep xs rule: join.induct) simp_all

lemma length_join_map_mono:
  assumes "\<And>z. z \<in> set zs \<Longrightarrow> length (f z) \<le> length (g z)" and "length sep \<le> length sep'"
  shows "length (join sep (map f zs)) \<le> length (join sep' (map g zs))"
proof -
  have "sum_list (map length (map f zs)) \<le> sum_list (map length (map g zs))"
    using assms(1) by (simp add: comp_def sum_list_mono)
  moreover have "(length zs - 1) * length sep \<le> (length zs - 1) * length sep'"
    using assms(2) by (rule mult_le_mono2)
  ultimately have "sum_list (map length (map f zs)) + (length zs - 1) * length sep
                     \<le> sum_list (map length (map g zs)) + (length zs - 1) * length sep'"
    by (rule add_mono)
  then show ?thesis
    by (simp add: length_join)
qed

lemma stringify_le_stringify2: "length (stringify j) \<le> length (stringify2 n j)"
proof (induction j arbitrary: n)
  case (JArr xs)
  have "length (join '','' (map stringify xs))
          \<le> length (join ('','' @ newline @ replicate (n + 2) CHR '' '') (map (stringify2 (n + 2)) xs))"
    by (rule length_join_map_mono) (simp_all add: JArr)
  then show ?case by simp
next
  case (JObj kvs)
  have "length (join '','' (map (\<lambda>kv. quoteJSON (fst kv) @ '':'' @ stringify (snd kv)) kvs))
          \<le> length (join ('','' @ newline @ replicate (n + 2) CHR '' '')
                 (map (\<lambda>kv. quoteJSON (fst kv) @ '': '' @ stringify2 (n + 2) (snd kv)) kvs))"
  proof (rule length_join_map_mono)
    fix kv assume mem: "kv \<in> set kvs"
    have "snd kv \<in> Basic_BNFs.snds kv" by (cases kv) simp
    with mem have "length (stringify (snd kv)) \<le> length (stringify2 (n + 2) (snd kv))"
      by (rule JObj)
    then show "length (quoteJSON (fst kv) @ '':'' @ stringify (snd kv))
                 \<le> length (quoteJSON (fst kv) @ '': '' @ stringify2 (n + 2) (snd kv))"
      by simp
  qed simp
  then show ?case by simp
qed simp_all

lemma stringify_lt_stringify2_object:
  assumes "kvs \<noteq> []"
  shows "length (stringify (JObj kvs)) < length (stringify2 n (JObj kvs))"
proof -
  have "length (join '','' (map (\<lambda>kv. quoteJSON (fst kv) @ '':'' @ stringify (snd kv)) kvs))
          \<le> length (join ('','' @ newline @ replicate (n + 2) CHR '' '')
                 (map (\<lambda>kv. quoteJSON (fst kv) @ '': '' @ stringify2 (n + 2) (snd kv)) kvs))"
  proof (rule length_join_map_mono)
    fix kv :: "string \<times> json"
    have "length (stringify (snd kv)) \<le> length (stringify2 (n + 2) (snd kv))"
      by (rule stringify_le_stringify2)
    then show "length (quoteJSON (fst kv) @ '':'' @ stringify (snd kv))
                 \<le> length (quoteJSON (fst kv) @ '': '' @ stringify2 (n + 2) (snd kv))"
      by simp
  qed simp
  then show ?thesis using assms by simp
qed

lemma pageContent_shorter:
  "length (stringify (pageContentJSON c)) < length (stringify2 0 (pageContentJSON c))"
  unfolding pageContentJSON_def by (rule stringify_lt_stringify2_object) simp

lemma tryDirectFetch_size:
  "success (fst (tryDirectFetch parse now decode fetched url s)) \<longrightarrow>
     (\<exists>h. html (fst (tryDirectFetch parse now decode fetched url s)) = Some h
          \<and> size_r (fst (tryDirectFetch parse now decode fetched url s)) = Some (length h))"
  by (simp add: tryDirectFetch_def Let_def split: sum.split)

lemma tryLightpanda_size:
  "fst (tryLightpanda parse now lw url s) = Inr r \<and> success r \<longrightarrow>
     (\<exists>h. html r = Some h \<and> size_r r = Some (length h))"
  by (auto simp: tryLightpanda_def Let_def split: sum.splits lpProcess.splits if_splits)

lemma tryPuppeteer_size:
  "fst (tryPuppeteer pw url s) = Inr r \<and> success r \<longrightarrow>
     html r = None
     \<and> (\<exists>c. page pw = Inr c
           \<and> content r = Some (stringify2 0 (pageContentJSON c))
           \<and> size_r r = Some (length (stringify (pageContentJSON c))))"
  by (auto simp: tryPuppeteer_def Let_def split: sum.splits if_splits)

lemma tryPDFParse_size:
  "success (fst (tryPDFParse pdfw url s)) \<longrightarrow>
     html (fst (tryPDFParse pdfw url s)) = None
     \<and> (\<exists>response buffer. pdfFetch pdfw = Inr response \<and> arrayBuffer response = Inr buffer
           \<and> size_r (fst (tryPDFParse pdfw url s)) = Some (length buffer))"
  by (simp add: tryPDFParse_def Let_def split: sum.split)

lemma rendered_eq: "fst (tryPuppeteer renderingWorld ''https://shop.test/'' freshScraper) = Inr rendered"
  by (simp add: rendered_def tryPuppeteer_def renderingWorld_def freshScraper_def Let_def
        incAttempts_def exec_def)

lemma rendered_facts:
  "success rendered" "html rendered = None"
  "size_r rendered = Some 186" "map_option length (content rendered) = Some 252"
  by code_simp+

text \<open>
  C5, as stated, fails: the full engine's result for a small page has no \<open>html\<close>, a
  \<open>content\<close> of 252 characters and a \<open>size\<close> of 186.
\<close>

theorem size_is_length_of_html_or_content_counterexample:
  "success rendered \<and> html rendered = None
   \<and> size_r rendered = Some 186 \<and> map_option length (content rendered) = Some 252
   \<and> size_r rendered \<noteq> map_option length (content rendered)"
  using rendered_facts by auto

text \<open>
  C5, amended. A successful direct fetch or light-engine result has \<open>size\<close> equal to the
  length of its \<open>html\<close>. A successful full-engine result has no \<open>html\<close>; its
  \<open>size\<close> is the length of \<open>JSON.stringify(content)\<close>, which is shorter than the
  indented text \<open>JSON.stringify(content, null, 2)\<close> it returns as \<open>content\<close>. A
  successful PDF result has no \<open>html\<close>; its \<open>size\<close> is the number of bytes of the
  downloaded document. \<open>scrape\<close> hands these fields on unchanged.
\<close>

theorem result_size_by_stage:
  "(success (fst (tryDirectFetch parse now decode fetched url s)) \<longrightarrow>
      (\<exists>h. html (fst (tryDirectFetch parse now decode fetched url s)) = Some h
           \<and> size_r (fst (tryDirectFetch parse now decode fetched url s)) = Some (length h)))
   \<and> (\<forall>r. fst (tryLightpanda parse now lw url s) = Inr r \<and> success r \<longrightarrow>
         (\<exists>h. html r = Some h \<and> size_r r = Some (length h)))
   \<and> (\<forall>r. fst (tryPuppeteer pw url s) = Inr r \<and> success r \<longrightarrow>
         html r = None
         \<and> (\<exists>c. page pw = Inr c
               \<and> content r = Some (stringify2 0 (pageContentJSON c))
               \<and> size_r r = Some (length (stringify (pageContentJSON c)))
               \<and> length (stringify (pageContentJSON c)) < length (stringify2 0 (pageContentJSON c))))
   \<and> (success (fst (tryPDFParse pdfw url s)) \<longrightarrow>
         html (fst (tryPDFParse pdfw url s)) = None
         \<and> (\<exists>response buffer. pdfFetch pdfw = Inr response \<and> arrayBuffer response = Inr buffer
               \<and> size_r (fst (tryPDFParse pdfw url s)) = Some (length buffer)))
   \<and> size_r (finish res m s) = size_r res \<and> html (finish res m s) = html res
   \<and> content (finish res m s) = content res"
  using tryDirectFetch_size [of parse now decode fetched url s]
    tryLightpanda_size [of parse now lw url s]
    tryPuppeteer_size [of pw url s]
    tryPDFParse_size [of pdfw url s]
    pageContent_shorter
  by (simp del: ex_simps)

theorem result_size_by_stage_witness:
  "fst (tryPuppeteer renderingWorld ''https://shop.test/'' freshScraper) = Inr rendered
   \<and> success rendered
   \<and> content rendered = Some (stringify2 0 (pageContentJSON shopPage))
   \<and> size_r rendered = Some (length (stringify (pageContentJSON shopPage)))
   \<and> length (stringify (pageContentJSON shopPage)) < length (stringify2 0 (pageContentJSON shopPage))"
proof -
  have p: "page renderingWorld = Inr shopPage" by (simp add: renderingWorld_def)
  from result_size_by_stage [of undefined undefined undefined undefined "''https://shop.test/''"
         freshScraper undefined renderingWorld]
  have "\<forall>r. fst (tryPuppeteer renderingWorld ''https://shop.test/'' freshScraper) = Inr r \<and> success r \<longrightarrow>
         html r = None
         \<and> (\<exists>c. page renderingWorld = Inr c
               \<and> content r = Some (stringify2 0 (pageContentJSON c))
               \<and> size_r r = Some (length (stringify (pageContentJSON c)))
               \<and> length (stringify (pageContentJSON c)) < length (stringify2 0 (pageContentJSON c)))"
    by blast
  with rendered_eq rendered_facts(1) p show ?thesis by auto
qed

end
